theory Spec2Isabelle
  imports Complex_Main
begin

chapter \<open>MolGPT front end: the embedded components\<close>

section \<open>EventBus (scripts/utils/EventBus.js)\<close>

text \<open>
  The bus keeps, per event name, the list of its listeners in registration order
  (\<^verbatim>\<open>this.events = new Map()\<close>). A listener object holds the callback, the
  \<^verbatim>\<open>once\<close> flag, the optional \<^verbatim>\<open>this\<close> context and its id. A callback is
  an arbitrary JavaScript function, so a listener holds only its identity (type \<open>'c\<close>); what
  a callback does when it is called is given by a behaviour \<open>env\<close>: from the callback, the
  context it is called with, the arguments and the bus as it is at the time of the call, it
  yields \<open>None\<close> (the callback returned) or \<open>Some e\<close> (it threw \<open>e\<close>), and the bus as
  the callback left it (a callback may subscribe and unsubscribe listeners).

  Listener ids come from \<^verbatim>\<open>Date.now()\<close> and \<^verbatim>\<open>Math.random()\<close>; the model
  takes the generated id as an argument of \<open>on\<close>.
\<close>

datatype bus_error = InvalidEventName

record ('c, 'x) listener =
  callback :: 'c
  once :: bool
  ctx :: "'x option"
  lid :: string

record stats =
  eventsEmitted :: nat
  eventsListened :: nat
  errors :: nat

record ('c, 'x) bus =
  events :: "string \<rightharpoonup> ('c, 'x) listener list"
  debug :: bool
  stats :: stats

text \<open>
  The arguments of an emission: those the emitter passed, or the object
  \<^verbatim>\<open>{ event, error, listener }\<close> that \<open>emit\<close> builds when it re-emits a listener's
  exception as an \<^verbatim>\<open>'error'\<close> event.
\<close>

datatype ('a, 'e) payload = Args 'a | ErrorInfo string 'e string

text \<open>The second argument of \<open>off\<close>: a callback function or a listener id.\<close>

datatype 'c handle = ByCallback 'c | ById string


type_synonym ('c, 'x, 'a, 'e) behaviour =
  "'c \<Rightarrow> 'x option \<Rightarrow> ('a, 'e) payload \<Rightarrow> ('c, 'x) bus \<Rightarrow> 'e option \<times> ('c, 'x) bus"

text \<open>One call of a listener made by an emission: the event name, the listener, the arguments.\<close>

type_synonym ('c, 'x, 'a, 'e) call = "string \<times> ('c, 'x) listener \<times> ('a, 'e) payload"



definition off :: "string \<Rightarrow> 'c handle option \<Rightarrow> ('c, 'x) bus \<Rightarrow> ('c, 'x) bus" where
  "off eventName callbackOrId b =
     (case events b eventName of
        None \<Rightarrow> b
      | Some listeners \<Rightarrow>
          (case callbackOrId of
             None \<Rightarrow> b\<lparr>events := (events b)(eventName := None)\<rparr>
           | Some h \<Rightarrow>
               (let filteredListeners =
                      filter (\<lambda>l. case h of ByCallback f \<Rightarrow> callback l \<noteq> f
                                             | ById i \<Rightarrow> lid l \<noteq> i) listeners
                in if length filteredListeners = length listeners then b
                   else if filteredListeners = [] then b\<lparr>events := (events b)(eventName := None)\<rparr>
                   else b\<lparr>events := (events b)(eventName \<mapsto> filteredListeners)\<rparr>)))"

text \<open>
  \<open>emit_unchecked\<close> is the body of \<open>emit\<close> after the check of the event name, and
  \<open>forEach\<close> the loop over the copied listener list, with the counter
  \<^verbatim>\<open>listenersTriggered\<close> as an argument. Both return the bus and the calls they made,
  in order. In the \<^verbatim>\<open>catch\<close> block the source calls \<^verbatim>\<open>this.emit('error', ...)\<close>;
  the name \<^verbatim>\<open>'error'\<close> passes the check, so the model calls \<open>emit_unchecked\<close> there.
  The guard \<^verbatim>\<open>eventName !== 'error'\<close> is what makes the recursion end.
\<close>

function emit_unchecked ::
    "('c, 'x, 'a, 'e) behaviour \<Rightarrow> string \<Rightarrow> ('a, 'e) payload \<Rightarrow> ('c, 'x) bus
       \<Rightarrow> bool \<times> ('c, 'x) bus \<times> ('c, 'x, 'a, 'e) call list"
  and forEach ::
    "('c, 'x, 'a, 'e) behaviour \<Rightarrow> string \<Rightarrow> ('a, 'e) payload \<Rightarrow> ('c, 'x) listener list
       \<Rightarrow> nat \<Rightarrow> ('c, 'x) bus \<Rightarrow> nat \<times> ('c, 'x) bus \<times> ('c, 'x, 'a, 'e) call list"
where
  "emit_unchecked env eventName args b =
     (case events b eventName of
        None \<Rightarrow> (False, b, [])
      | Some listeners \<Rightarrow>
          (case forEach env eventName args listeners 0 b of
             (listenersTriggered, b', calls) \<Rightarrow>
               (0 < listenersTriggered,
                b'\<lparr>stats := (stats b')\<lparr>eventsEmitted := eventsEmitted (stats b') + 1\<rparr>\<rparr>,
                calls)))"
| "forEach env eventName args [] n b = (n, b, [])"
| "forEach env eventName args (l # ls) n b =
     (case env (callback l) (ctx l) args b of
        (None, b1) \<Rightarrow>
          (case forEach env eventName args ls (n + 1)
                  (if once l then off eventName (Some (ById (lid l))) b1 else b1) of
             (n', b', calls) \<Rightarrow> (n', b', (eventName, l, args) # calls))
      | (Some e, b1) \<Rightarrow>
          (case (if eventName \<noteq> ''error''
                 then snd (emit_unchecked env ''error'' (ErrorInfo eventName e (lid l))
                             (b1\<lparr>stats := (stats b1)\<lparr>errors := errors (stats b1) + 1\<rparr>\<rparr>))
                 else (b1\<lparr>stats := (stats b1)\<lparr>errors := errors (stats b1) + 1\<rparr>\<rparr>, [])) of
             (b2, nested) \<Rightarrow>
               (case forEach env eventName args ls n b2 of
                  (n', b', calls) \<Rightarrow> (n', b', (eventName, l, args) # nested @ calls))))"
  by pat_completeness auto
termination
  by (relation "inv_image (less_than <*lex*> less_than) (\<lambda>v. case v of
            Inl (env, name, args, b) \<Rightarrow> ((if name = ''error'' then 1 else 3), 0)
          | Inr (env, name, args, ls, n, b) \<Rightarrow> ((if name = ''error'' then 0 else 2), length ls))")
     auto

definition emit ::
    "('c, 'x, 'a, 'e) behaviour \<Rightarrow> string \<Rightarrow> ('a, 'e) payload \<Rightarrow> ('c, 'x) bus
       \<Rightarrow> bus_error + bool \<times> ('c, 'x) bus \<times> ('c, 'x, 'a, 'e) call list" where
  "emit env eventName args b =
     (if eventName = [] then Inl InvalidEventName else Inr (emit_unchecked env eventName args b))"

text \<open>The listeners registered for an event, in registration order (none when the key is absent).\<close>

definition listenersOf :: "('c, 'x) bus \<Rightarrow> string \<Rightarrow> ('c, 'x) listener list" where
  "listenersOf b eventName = (case events b eventName of None \<Rightarrow> [] | Some ls \<Rightarrow> ls)"

definition getListenerCount :: "('c, 'x) bus \<Rightarrow> string \<Rightarrow> nat" where
  "getListenerCount b eventName = length (listenersOf b eventName)"

text \<open>
  A behaviour whose callbacks never change the registry (they neither subscribe nor
  unsubscribe): used where a statement is about what \<open>emit\<close> itself does to the registry.
\<close>

definition registry_untouched :: "('c, 'x, 'a, 'e) behaviour \<Rightarrow> bool" where
  "registry_untouched env = (\<forall>c x p b. events (snd (env c x p b)) = events b)"

text \<open>
  A concrete bus for the examples below: three listeners for \<^verbatim>\<open>'data'\<close> (the first
  a one-time listener, the second with a callback that throws) and one for \<^verbatim>\<open>'error'\<close>.
\<close>

definition example_env :: "(nat, unit, nat, string) behaviour" where
  "example_env c x p b = (if c = 1 then Some ''boom'' else None, b)"

definition example_listener :: "nat \<Rightarrow> bool \<Rightarrow> string \<Rightarrow> (nat, unit) listener" where
  "example_listener c o_flag i = \<lparr>callback = c, once = o_flag, ctx = None, lid = i\<rparr>"

definition example_bus :: "(nat, unit) bus" where
  "example_bus =
     \<lparr>events = [''data'' \<mapsto> [example_listener 0 True ''a'', example_listener 1 False ''b'',
                              example_listener 2 False ''c''],
                 ''error'' \<mapsto> [example_listener 3 False ''d'']],
      debug = False,
      stats = \<lparr>eventsEmitted = 0, eventsListened = 4, errors = 0\<rparr>\<rparr>"



section \<open>JavaScript numbers\<close>

text \<open>
  The values of the JavaScript type Number as far as the components use them: comparisons,
  truthiness, strict equality, \<^verbatim>\<open>Math.min\<close> and \<^verbatim>\<open>Math.max\<close>. No arithmetic is
  done on them, so a finite number is taken as a real (every double is one), next to the
  two infinities and NaN; the two zeros are not told apart.
\<close>

datatype number = NaN | NegInf | Fin real | PosInf

fun lt :: "number \<Rightarrow> number \<Rightarrow> bool" where
  "lt (Fin a) (Fin b) = (a < b)"
| "lt NegInf (Fin b) = True"
| "lt NegInf PosInf = True"
| "lt (Fin a) PosInf = True"
| "lt _ _ = False"

definition gt :: "number \<Rightarrow> number \<Rightarrow> bool" where
  "gt a b = lt b a"

fun isNaN :: "number \<Rightarrow> bool" where
  "isNaN NaN = True"
| "isNaN _ = False"

fun strictEquals :: "number \<Rightarrow> number \<Rightarrow> bool" where
  "strictEquals NaN _ = False"
| "strictEquals _ NaN = False"
| "strictEquals a b = (a = b)"

fun truthy :: "number \<Rightarrow> bool" where
  "truthy NaN = False"
| "truthy (Fin r) = (r \<noteq> 0)"
| "truthy _ = True"

definition Math_min :: "number \<Rightarrow> number \<Rightarrow> number" where
  "Math_min a b = (if isNaN a \<or> isNaN b then NaN else if lt b a then b else a)"

definition Math_max :: "number \<Rightarrow> number \<Rightarrow> number" where
  "Math_max a b = (if isNaN a \<or> isNaN b then NaN else if lt a b then b else a)"

text \<open>\<open>inRange lo hi x\<close>: the number \<open>x\<close> lies in the closed interval from \<open>lo\<close> to \<open>hi\<close>.\<close>

definition inRange :: "real \<Rightarrow> real \<Rightarrow> number \<Rightarrow> bool" where
  "inRange lo hi x = (case x of Fin r \<Rightarrow> lo \<le> r \<and> r \<le> hi | _ \<Rightarrow> False)"

text \<open>
  The number a numeral stands for is the double nearest to its value: \<open>toDouble\<close> rounds
  a real to the nearest multiple of the unit in the last place of its binade (the unit is
  \<open>2 powi (e - 52)\<close> for a value from \<open>2 powi e\<close> up to \<open>2 powi (e + 1)\<close>, and
  \<open>2 powi (- 1074)\<close> for the values below \<open>2 powi (- 1022)\<close>), to the even multiple
  when two are equally near, and to an infinity when the rounded value reaches
  \<open>2 ^ 1024\<close>.
\<close>

definition roundHalfEven :: "real \<Rightarrow> int" where
  "roundHalfEven x =
     (let f = \<lfloor>x\<rfloor>; d = x - of_int f
      in if d < 1 / 2 then f else if 1 / 2 < d then f + 1 else if even f then f else f + 1)"

definition toDouble :: "real \<Rightarrow> number" where
  "toDouble r =
     (if r = 0 then Fin 0
      else
        let a = \<bar>r\<bar>;
            e = max \<lfloor>log 2 a\<rfloor> (- 1022) - 52;
            v = of_int (roundHalfEven (a / 2 powi e)) * 2 powi e
        in if 2 ^ 1024 \<le> v then (if r < 0 then NegInf else PosInf)
           else Fin (if r < 0 then - v else v))"

section \<open>The generation response\<close>

text \<open>
  The JSON body of the service's answer, as \<open>renderResults\<close> destructures it; a key that
  is absent (\<open>None\<close>) takes the default of the destructuring pattern.
\<close>

record molecule =
  smiles :: string
  valid :: "bool option"

record generationResult =
  generated_molecules :: "molecule list option"
  total_generated :: "nat option"
  valid_molecules :: "nat option"
  requestParams_samples :: "nat option"
  csv_url :: "string option"

section \<open>GenerationController (scripts/components/GenerationController.js)\<close>

text \<open>
  Form data is a JavaScript object that starts empty and is merged with the payload of
  every \<^verbatim>\<open>form:dataChanged\<close> event. The record has the keys the components read, each
  absent (\<open>None\<close>: the key is missing, \<^verbatim>\<open>undefined\<close> or \<^verbatim>\<open>null\<close>) or holding
  a value of the type the form components send: a number for \<open>samples\<close> and
  \<open>temperature\<close>, a string for the text fields, a file handle for the uploads.
\<close>

record 'f formData =
  samples :: "number option"
  temperature :: "number option"
  scaffold :: "string option"
  fragment1 :: "string option"
  fragment2 :: "string option"
  startingMolecule :: "string option"
  similarity :: "string option"
  scaffoldFile :: "'f option"
  fragmentFile :: "'f option"
  transformationFile :: "'f option"

definition emptyFormData :: "'f formData" where
  "emptyFormData =
     \<lparr>samples = None, temperature = None, scaffold = None, fragment1 = None, fragment2 = None,
      startingMolecule = None, similarity = None, scaffoldFile = None, fragmentFile = None,
      transformationFile = None\<rparr>"

text \<open>
  The payload of a change event is an object with some of the keys: a list of assignments.
  \<open>spread fd data\<close> is \<^verbatim>\<open>{ ...fd, ...data }\<close>.
\<close>

datatype 'f assignment =
    SetSamples "number option"
  | SetTemperature "number option"
  | SetScaffold "string option"
  | SetFragment1 "string option"
  | SetFragment2 "string option"
  | SetStartingMolecule "string option"
  | SetSimilarity "string option"
  | SetScaffoldFile "'f option"
  | SetFragmentFile "'f option"
  | SetTransformationFile "'f option"

fun assign :: "'f assignment \<Rightarrow> 'f formData \<Rightarrow> 'f formData" where
  "assign (SetSamples v) fd = fd\<lparr>samples := v\<rparr>"
| "assign (SetTemperature v) fd = fd\<lparr>temperature := v\<rparr>"
| "assign (SetScaffold v) fd = fd\<lparr>scaffold := v\<rparr>"
| "assign (SetFragment1 v) fd = fd\<lparr>fragment1 := v\<rparr>"
| "assign (SetFragment2 v) fd = fd\<lparr>fragment2 := v\<rparr>"
| "assign (SetStartingMolecule v) fd = fd\<lparr>startingMolecule := v\<rparr>"
| "assign (SetSimilarity v) fd = fd\<lparr>similarity := v\<rparr>"
| "assign (SetScaffoldFile v) fd = fd\<lparr>scaffoldFile := v\<rparr>"
| "assign (SetFragmentFile v) fd = fd\<lparr>fragmentFile := v\<rparr>"
| "assign (SetTransformationFile v) fd = fd\<lparr>transformationFile := v\<rparr>"

definition spread :: "'f formData \<Rightarrow> 'f assignment list \<Rightarrow> 'f formData" where
  "spread fd data = fold assign data fd"

record 'f gc_state =
  isGenerating :: bool
  currentMode :: string
  formData :: "'f formData"
  abortController :: "nat option"

text \<open>The generate button, as far as \<open>updateButtonState\<close> writes it.\<close>

record button =
  textContent :: string
  classList :: "string set"
  disabled :: bool
  aria_busy :: string
  aria_describedby :: "string option"
  title :: string

record requestPayload =
  rp_samples :: "number option"
  rp_temperature :: "number option"
  rp_mode :: string
  rp_scaffold :: "string option"
  rp_fragment1 :: "string option"
  rp_fragment2 :: "string option"
  scaffold_file_text :: "string option"
  fragment_file_text :: "string option"

text \<open>
  What a handler does to the outside: an event emitted on the bus (name and argument), a
  call of \<^verbatim>\<open>abort()\<close> on an AbortController, a call of \<^verbatim>\<open>fetch\<close> with a request
  body and a signal. AbortControllers are numbered in the order of their creation.
\<close>

datatype arg = NoArg | ResultsArg generationResult | ErrorArg string

datatype effect = Emit string arg | AbortCalled nat | FetchCalled requestPayload nat

text \<open>
  The controller with the part of the browser it acts on: \<open>eventBus\<close> tells whether a bus
  was given (\<^verbatim>\<open>if (this.eventBus)\<close>), \<open>controllersCreated\<close> counts the
  AbortControllers made so far, \<open>aborted\<close> holds those whose \<^verbatim>\<open>abort()\<close> was called,
  and \<open>inFlight\<close> lists, by their signals, the requests that \<^verbatim>\<open>fetch\<close> has sent and that
  have neither been answered, nor failed, nor been aborted.
\<close>

record 'f controller =
  state :: "'f gc_state"
  element :: button
  eventBus :: bool
  controllersCreated :: nat
  aborted :: "nat set"
  inFlight :: "nat list"

record validation =
  isValid :: bool
  errors' :: "string list"

fun join :: "string \<Rightarrow> string list \<Rightarrow> string" where
  "join sep [] = []"
| "join sep [x] = x"
| "join sep (x # y # ys) = x @ sep @ join sep (y # ys)"

text \<open>
  The JavaScript tests of \<open>validateForm\<close> on a field that may be absent: \<^verbatim>\<open>!v\<close> for a
  number, a string and a file, and \<^verbatim>\<open>v < k\<close>, \<^verbatim>\<open>v > k\<close> (false when \<open>v\<close> is
  \<^verbatim>\<open>undefined\<close>, which converts to NaN).
\<close>

definition falsyNumber :: "number option \<Rightarrow> bool" where
  "falsyNumber v = (case v of None \<Rightarrow> True | Some n \<Rightarrow> \<not> truthy n)"

definition falsyString :: "string option \<Rightarrow> bool" where
  "falsyString v = (case v of None \<Rightarrow> True | Some s \<Rightarrow> s = [])"

definition falsyFile :: "'f option \<Rightarrow> bool" where
  "falsyFile v = (v = None)"

definition ltOpt :: "number option \<Rightarrow> number \<Rightarrow> bool" where
  "ltOpt v k = (case v of None \<Rightarrow> False | Some n \<Rightarrow> lt n k)"

definition gtOpt :: "number option \<Rightarrow> number \<Rightarrow> bool" where
  "gtOpt v k = (case v of None \<Rightarrow> False | Some n \<Rightarrow> gt n k)"

text \<open>The first message ends in the sign for "greater or equal" (here its three UTF-8 bytes) and 1.\<close>

definition sampleSizeMessage :: string where
  "sampleSizeMessage = ''Please enter a sample size '' @ [CHR 0xE2, CHR 0x89, CHR 0xA5] @ '' 1''"

definition validateForm :: "'f gc_state \<Rightarrow> validation" where
  "validateForm st =
     (let fd = formData st;
          e1 = (if falsyNumber (samples fd) \<or> ltOpt (samples fd) (Fin 1)
                then [sampleSizeMessage] else []);
          e2 = (if gtOpt (samples fd) (Fin 500)
                then [''Sample size cannot exceed 500''] else []);
          e3 = (if ltOpt (temperature fd) (Fin 0) \<or> gtOpt (temperature fd) (Fin 2)
                then [''Temperature must be between 0 and 2''] else []);
          e4 = (if currentMode st = ''Select Mode''
                then [''Please choose a generator mode''] else []);
          e5 = (if currentMode st = ''Scaffold Decoration''
                   \<and> falsyString (scaffold fd) \<and> falsyFile (scaffoldFile fd)
                then [''Please provide a scaffold SMILES or upload a scaffold file''] else []);
          e6 = (if currentMode st = ''Fragment Linking''
                   \<and> falsyFile (fragmentFile fd)
                   \<and> (falsyString (fragment1 fd) \<or> falsyString (fragment2 fd))
                then [''Please provide two fragment SMILES or upload a fragment file''] else []);
          errors = e1 @ e2 @ e3 @ e4 @ e5 @ e6
      in \<lparr>isValid = (length errors = 0), errors' = errors\<rparr>)"

definition toggleClass :: "string \<Rightarrow> bool \<Rightarrow> string set \<Rightarrow> string set" where
  "toggleClass c force cs = (if force then insert c cs else cs - {c})"

definition updateButtonState :: "'f controller \<Rightarrow> 'f controller" where
  "updateButtonState c =
     (let validation = validateForm (state c);
          canGenerate = (isValid validation \<and> \<not> isGenerating (state c));
          el = element c;
          el1 = (if isGenerating (state c)
                 then el\<lparr>textContent := ''Cancel'',
                         classList := insert ''generate-button--generating'' (classList el)\<rparr>
                 else el\<lparr>textContent := ''Generate'',
                         classList := classList el - {''generate-button--generating''}\<rparr>);
          el2 = el1\<lparr>disabled := (\<not> canGenerate \<and> \<not> isGenerating (state c))\<rparr>;
          el3 = el2\<lparr>classList :=
                      toggleClass ''generate-button--disabled'' (disabled el2) (classList el2)\<rparr>;
          el4 = el3\<lparr>aria_busy := (if isGenerating (state c) then ''true'' else ''false'')\<rparr>;
          el5 = (if \<not> isValid validation
                 then el4\<lparr>aria_describedby := Some ''generation-errors'',
                          title := join ''; '' (errors' validation)\<rparr>
                 else el4\<lparr>aria_describedby := None, title := []\<rparr>)
      in c\<lparr>element := el5\<rparr>)"

definition handleModeChange :: "string \<Rightarrow> 'f controller \<Rightarrow> 'f controller" where
  "handleModeChange newMode c =
     updateButtonState (c\<lparr>state := (state c)\<lparr>currentMode := newMode\<rparr>\<rparr>)"

definition handleFormDataChange :: "'f assignment list \<Rightarrow> 'f controller \<Rightarrow> 'f controller" where
  "handleFormDataChange data c =
     updateButtonState (c\<lparr>state := (state c)\<lparr>formData := spread (formData (state c)) data\<rparr>\<rparr>)"

text \<open>\<^verbatim>\<open>v || ''\<close> for a string that may be absent.\<close>

definition orEmpty :: "string option \<Rightarrow> string" where
  "orEmpty v = (case v of None \<Rightarrow> [] | Some s \<Rightarrow> s)"

definition buildRequestPayload :: "'f gc_state \<Rightarrow> requestPayload" where
  "buildRequestPayload st =
     (let fd = formData st;
          payload = \<lparr>rp_samples = samples fd, rp_temperature = temperature fd,
                     rp_mode = currentMode st, rp_scaffold = None, rp_fragment1 = None,
                     rp_fragment2 = None, scaffold_file_text = None, fragment_file_text = None\<rparr>;
          payload1 = (if currentMode st = ''Scaffold Decoration''
                      then payload\<lparr>rp_scaffold := Some (orEmpty (scaffold fd))\<rparr> else payload);
          payload2 = (if currentMode st = ''Fragment Linking''
                      then payload1\<lparr>rp_fragment1 := Some (orEmpty (fragment1 fd)),
                                    rp_fragment2 := Some (orEmpty (fragment2 fd))\<rparr>
                      else payload1)
      in payload2)"

definition handleGenerationError :: "string \<Rightarrow> 'f controller \<Rightarrow> effect list" where
  "handleGenerationError message c =
     (if eventBus c then [Emit ''generation:error'' (ErrorArg message)] else [])"

definition handleGenerationSuccess :: "generationResult \<Rightarrow> 'f controller \<Rightarrow> effect list" where
  "handleGenerationSuccess results c =
     (if eventBus c then [Emit ''generation:complete'' (ResultsArg results)] else [])"

text \<open>
  \<^verbatim>\<open>abort()\<close> on the stored controller marks it aborted and ends the requests sent with
  its signal.
\<close>

definition cancelGeneration :: "'f controller \<Rightarrow> 'f controller \<times> effect list" where
  "cancelGeneration c =
     (let c1 = (case abortController (state c) of
                  None \<Rightarrow> c
                | Some a \<Rightarrow> c\<lparr>aborted := insert a (aborted c),
                              inFlight := filter (\<lambda>s. s \<noteq> a) (inFlight c)\<rparr>);
          c2 = updateButtonState (c1\<lparr>state := (state c1)\<lparr>isGenerating := False\<rparr>\<rparr>)
      in (c2,
          (case abortController (state c) of None \<Rightarrow> [] | Some a \<Rightarrow> [AbortCalled a])
            @ (if eventBus c then [Emit ''generation:cancelled'' NoArg] else [])))"

text \<open>
  \<open>startGeneration\<close> is an async function. The model follows it in the pieces that
  run without interruption. The first, \<open>startGeneration\<close>, runs inside the click
  handler: validation (an invalid form throws the joined messages, \<open>Inl\<close>), the state
  update, the event \<^verbatim>\<open>generation:start\<close>, the payload, and the start of
  \<open>makeApiRequest\<close> up to the first \<^verbatim>\<open>await\<close> in \<open>prepareRequestWithFiles\<close>; its
  result holds what the suspended run keeps: the payload and the files to read.
  \<open>prepareRequestWithFiles\<close> looks at \<^verbatim>\<open>formData.scaffoldFile\<close> at once. It looks at
  \<^verbatim>\<open>formData.fragmentFile\<close> at once only when there is no scaffold file to wait for;
  otherwise it does so when the scaffold file has been read, in the form data as it is by
  then: that piece is \<open>scaffoldFileRead\<close>.
\<close>

record 'f suspended =
  run_payload :: requestPayload
  run_scaffoldFile :: "'f option"
  run_fragmentFile :: "'f option"

definition startGeneration ::
    "'f controller \<Rightarrow> string + ('f controller \<times> effect list \<times> 'f suspended)" where
  "startGeneration c =
     (let validation = validateForm (state c)
      in if \<not> isValid validation then Inl (join ''; '' (errors' validation))
         else
           let c1 = updateButtonState (c\<lparr>state := (state c)\<lparr>isGenerating := True\<rparr>\<rparr>);
               started = (if eventBus c then [Emit ''generation:start'' NoArg] else []);
               payload = buildRequestPayload (state c1);
               c2 = c1\<lparr>state := (state c1)\<lparr>abortController := Some (controllersCreated c1)\<rparr>,
                       controllersCreated := controllersCreated c1 + 1\<rparr>
           in Inr (c2, started,
                   \<lparr>run_payload = payload,
                    run_scaffoldFile = scaffoldFile (formData (state c2)),
                    run_fragmentFile =
                      (case scaffoldFile (formData (state c2)) of
                         None \<Rightarrow> fragmentFile (formData (state c2))
                       | Some f \<Rightarrow> None)\<rparr>))"

definition scaffoldFileRead :: "'f suspended \<Rightarrow> 'f controller \<Rightarrow> 'f suspended" where
  "scaffoldFileRead run c = run\<lparr>run_fragmentFile := fragmentFile (formData (state c))\<rparr>"

text \<open>
  The click handler: its result is the controller, the effects and, when a run of
  \<open>startGeneration\<close> was started and is now suspended, that run.
\<close>

definition handleClick ::
    "'f controller \<Rightarrow> 'f controller \<times> effect list \<times> 'f suspended option" where
  "handleClick c =
     (if isGenerating (state c)
      then (case cancelGeneration c of (c', effects) \<Rightarrow> (c', effects, None))
      else (case startGeneration c of
              Inl message \<Rightarrow> (c, handleGenerationError message c, None)
            | Inr (c', effects, run) \<Rightarrow> (c', effects, Some run)))"

definition handleKeyPress ::
    "string \<Rightarrow> 'f controller \<Rightarrow> 'f controller \<times> effect list \<times> 'f suspended option" where
  "handleKeyPress key c =
     (if key = ''Enter'' \<or> key = '' '' then handleClick c else (c, [], None))"

text \<open>
  \<open>readFileAsText\<close> is what the FileReader yields for a file: its text, or \<open>None\<close> when
  reading fails (the source then only logs a warning). \<open>prepareRequestWithFiles\<close> gives
  the payload of a run whose files have been read.
\<close>

definition prepareRequestWithFiles ::
    "('f \<Rightarrow> string option) \<Rightarrow> 'f suspended \<Rightarrow> requestPayload" where
  "prepareRequestWithFiles readFileAsText run =
     (let p1 = (case run_scaffoldFile run of
                  None \<Rightarrow> run_payload run
                | Some f \<Rightarrow>
                    (case readFileAsText f of
                       None \<Rightarrow> run_payload run
                     | Some content \<Rightarrow> (run_payload run)\<lparr>scaffold_file_text := Some content\<rparr>));
          p2 = (case run_fragmentFile run of
                  None \<Rightarrow> p1
                | Some f \<Rightarrow>
                    (case readFileAsText f of
                       None \<Rightarrow> p1
                     | Some content \<Rightarrow> p1\<lparr>fragment_file_text := Some content\<rparr>))
      in p2)"

text \<open>
  The \<^verbatim>\<open>finally\<close> block of \<open>startGeneration\<close>, and the path of a failed run: the
  \<^verbatim>\<open>catch\<close> block of \<open>startGeneration\<close> reports the error, the \<^verbatim>\<open>finally\<close>
  block runs, and the \<^verbatim>\<open>catch\<close> block of \<open>handleClick\<close> reports the rethrown error
  again.
\<close>

definition finishGeneration :: "'f controller \<Rightarrow> 'f controller" where
  "finishGeneration c =
     updateButtonState (c\<lparr>state := (state c)\<lparr>isGenerating := False, abortController := None\<rparr>\<rparr>)"

definition generationFailed :: "string \<Rightarrow> 'f controller \<Rightarrow> 'f controller \<times> effect list" where
  "generationFailed message c =
     (let c' = finishGeneration c
      in (c', handleGenerationError message c @ handleGenerationError message c'))"

text \<open>
  The next piece: \<open>makeApiRequest\<close> after \<open>prepareRequestWithFiles\<close> has resolved,
  in the controller as it is when the last file has been read.
  It reads \<^verbatim>\<open>this.state.abortController.signal\<close> (a TypeError when the field is
  \<^verbatim>\<open>null\<close> by then, which fails the run) and calls \<^verbatim>\<open>fetch\<close>; with a signal that
  is already aborted no request is sent. The run is then suspended on the race between the
  request and the timer; the result holds the signal it used.
\<close>

definition makeApiRequest ::
    "('f \<Rightarrow> string option) \<Rightarrow> 'f suspended \<Rightarrow> 'f controller
       \<Rightarrow> 'f controller \<times> effect list \<times> nat option" where
  "makeApiRequest readFileAsText run c =
     (let requestPayload = prepareRequestWithFiles readFileAsText run
      in case abortController (state c) of
           None \<Rightarrow>
             (case generationFailed ''TypeError'' c of (c', effects) \<Rightarrow> (c', effects, None))
         | Some signal \<Rightarrow>
             (if signal \<in> aborted c then c else c\<lparr>inFlight := inFlight c @ [signal]\<rparr>,
              [FetchCalled requestPayload signal],
              Some signal))"

text \<open>
  The last piece: the race has settled. A response (with an ok status or not, or with a
  body that is not JSON) and a network failure end the request; a rejection by abort ended
  it when \<^verbatim>\<open>abort()\<close> was called; the timer leaves the request as it is: nothing aborts it.
\<close>

datatype outcome =
    ResponseOk generationResult
  | ResponseNotOk string
  | ResponseJsonFailed string
  | FetchFailed string
  | FetchAborted
  | TimedOut

definition raceSettled ::
    "nat \<Rightarrow> outcome \<Rightarrow> 'f controller \<Rightarrow> 'f controller \<times> effect list" where
  "raceSettled signal outcome c =
     (case outcome of
        ResponseOk results \<Rightarrow>
          (let c1 = c\<lparr>inFlight := remove1 signal (inFlight c)\<rparr>
           in (finishGeneration c1, handleGenerationSuccess results c1))
      | ResponseNotOk message \<Rightarrow>
          generationFailed message (c\<lparr>inFlight := remove1 signal (inFlight c)\<rparr>)
      | ResponseJsonFailed message \<Rightarrow>
          generationFailed message (c\<lparr>inFlight := remove1 signal (inFlight c)\<rparr>)
      | FetchFailed message \<Rightarrow>
          generationFailed message (c\<lparr>inFlight := remove1 signal (inFlight c)\<rparr>)
      | FetchAborted \<Rightarrow> generationFailed ''Generation was cancelled'' c
      | TimedOut \<Rightarrow> generationFailed ''Request timeout'' c)"

text \<open>The controller as the constructor leaves it, for a given button and bus.\<close>

definition initialController :: "button \<Rightarrow> bool \<Rightarrow> 'f controller" where
  "initialController el bus =
     updateButtonState
       \<lparr>state = \<lparr>isGenerating = False, currentMode = ''Select Mode'', formData = emptyFormData,
                  abortController = None\<rparr>,
        element = el, eventBus = bus, controllersCreated = 0, aborted = {}, inFlight = []\<rparr>"

subsection \<open>The validation policy, in the words of the specification\<close>

text \<open>
  These definitions follow the specification, not the code; \<open>validateForm\<close> is compared
  with them below. \<open>claimedValid\<close> is the policy as the specification states it
  (\<^verbatim>\<open>samples\<close> in [1,500], \<^verbatim>\<open>temperature\<close> in [0,2], a mode chosen, the rule of the
  mode), and \<open>violatedMessages\<close> lists the messages of the violated rules, in the order
  of the rules. A value that is absent is in no range.
\<close>

definition samplesInRange :: "'f formData \<Rightarrow> bool" where
  "samplesInRange fd = (case samples fd of None \<Rightarrow> False | Some n \<Rightarrow> inRange 1 500 n)"

definition temperatureInRange :: "'f formData \<Rightarrow> bool" where
  "temperatureInRange fd = (case temperature fd of None \<Rightarrow> False | Some t \<Rightarrow> inRange 0 2 t)"

definition scaffoldRule :: "'f gc_state \<Rightarrow> bool" where
  "scaffoldRule st =
     (currentMode st = ''Scaffold Decoration'' \<longrightarrow>
        orEmpty (scaffold (formData st)) \<noteq> [] \<or> scaffoldFile (formData st) \<noteq> None)"

definition fragmentRule :: "'f gc_state \<Rightarrow> bool" where
  "fragmentRule st =
     (currentMode st = ''Fragment Linking'' \<longrightarrow>
        fragmentFile (formData st) \<noteq> None
        \<or> (orEmpty (fragment1 (formData st)) \<noteq> [] \<and> orEmpty (fragment2 (formData st)) \<noteq> []))"

definition claimedValid :: "'f gc_state \<Rightarrow> bool" where
  "claimedValid st =
     (samplesInRange (formData st) \<and> temperatureInRange (formData st)
      \<and> currentMode st \<noteq> ''Select Mode'' \<and> scaffoldRule st \<and> fragmentRule st)"

definition violatedMessages :: "'f gc_state \<Rightarrow> string list" where
  "violatedMessages st =
     (if samplesInRange (formData st) then []
      else if gtOpt (samples (formData st)) (Fin 500) then [''Sample size cannot exceed 500'']
      else [sampleSizeMessage])
     @ (if temperatureInRange (formData st) then [] else [''Temperature must be between 0 and 2''])
     @ (if currentMode st \<noteq> ''Select Mode'' then [] else [''Please choose a generator mode''])
     @ (if scaffoldRule st then []
        else [''Please provide a scaffold SMILES or upload a scaffold file''])
     @ (if fragmentRule st then []
        else [''Please provide two fragment SMILES or upload a fragment file''])"

subsection \<open>Example states of the controller\<close>

definition exampleButton :: button where
  "exampleButton =
     \<lparr>textContent = ''Generate'', classList = {''generate-button''}, disabled = False,
      aria_busy = ''false'', aria_describedby = None, title = []\<rparr>"

definition readyController :: "unit controller" where
  "readyController =
     handleFormDataChange [SetSamples (Some (Fin 5)), SetTemperature (Some (Fin 1))]
       (handleModeChange ''De Novo Generation'' (initialController exampleButton True))"

definition generatingController :: "unit controller" where
  "generatingController =
     \<lparr>state = \<lparr>isGenerating = True, currentMode = ''De Novo Generation'',
                formData = emptyFormData\<lparr>samples := Some (Fin 5), temperature := Some (Fin 1)\<rparr>,
                abortController = Some 0\<rparr>,
      element = exampleButton\<lparr>textContent := ''Cancel''\<rparr>,
      eventBus = True, controllersCreated = 1, aborted = {}, inFlight = [0]\<rparr>"

section \<open>Parsing numbers: parseInt and parseFloat\<close>

text \<open>
  The two built-in parsers the form handlers call, on strings of 8-bit characters. Both skip
  leading white space and read the longest prefix that is a numeral; \<open>parseInt\<close> takes the
  radix as the source passes it (\<open>None\<close> when it is left out: a \<^verbatim>\<open>0x\<close> prefix then
  selects radix 16). The result is the double nearest to the value of the numeral.
\<close>

definition isWhiteSpace :: "char \<Rightarrow> bool" where
  "isWhiteSpace c = ((of_char c :: nat) \<in> {9, 10, 11, 12, 13, 32, 160})"

definition digitValue :: "char \<Rightarrow> nat option" where
  "digitValue c =
     (let n = (of_char c :: nat)
      in if 48 \<le> n \<and> n \<le> 57 then Some (n - 48)
         else if 97 \<le> n \<and> n \<le> 122 then Some (n - 87)
         else if 65 \<le> n \<and> n \<le> 90 then Some (n - 55)
         else None)"

definition isRadixDigit :: "nat \<Rightarrow> char \<Rightarrow> bool" where
  "isRadixDigit R c = (case digitValue c of None \<Rightarrow> False | Some d \<Rightarrow> d < R)"

definition digitsValue :: "nat \<Rightarrow> string \<Rightarrow> nat" where
  "digitsValue R z = foldl (\<lambda>acc c. acc * R + (case digitValue c of None \<Rightarrow> 0 | Some d \<Rightarrow> d)) 0 z"

definition isNegative :: "string \<Rightarrow> bool" where
  "isNegative s = (case s of [] \<Rightarrow> False | c # r \<Rightarrow> c = CHR ''-'')"

definition dropSign :: "string \<Rightarrow> string" where
  "dropSign s = (case s of [] \<Rightarrow> [] | c # r \<Rightarrow> if c = CHR ''+'' \<or> c = CHR ''-'' then r else s)"

definition parseInt :: "string \<Rightarrow> nat option \<Rightarrow> number" where
  "parseInt str radix =
     (let s = dropWhile isWhiteSpace str;
          s1 = dropSign s;
          R0 = (case radix of None \<Rightarrow> 0 | Some r \<Rightarrow> r)
      in if R0 \<noteq> 0 \<and> (R0 < 2 \<or> 36 < R0) then NaN
         else
           let hex = ((R0 = 0 \<or> R0 = 16) \<and> (take 2 s1 = ''0x'' \<or> take 2 s1 = ''0X''));
               s2 = (if hex then drop 2 s1 else s1);
               R = (if hex then 16 else if R0 = 0 then 10 else R0);
               z = takeWhile (isRadixDigit R) s2
           in if z = [] then NaN
              else toDouble ((if isNegative s then - 1 else 1) * real (digitsValue R z)))"

definition exponentPart :: "string \<Rightarrow> int" where
  "exponentPart s =
     (case s of
        [] \<Rightarrow> 0
      | c # r \<Rightarrow>
          if c = CHR ''e'' \<or> c = CHR ''E''
          then (let ds = takeWhile (isRadixDigit 10) (dropSign r)
                in if ds = [] then 0
                   else (if isNegative r then - 1 else 1) * int (digitsValue 10 ds))
          else 0)"

definition parseFloat :: "string \<Rightarrow> number" where
  "parseFloat str =
     (let s = dropWhile isWhiteSpace str;
          s1 = dropSign s
      in if take 8 s1 = ''Infinity'' then (if isNegative s then NegInf else PosInf)
         else
           let ip = takeWhile (isRadixDigit 10) s1;
               r1 = dropWhile (isRadixDigit 10) s1;
               hasPoint = (case r1 of [] \<Rightarrow> False | c # r \<Rightarrow> c = CHR ''.'');
               fp = (if hasPoint then takeWhile (isRadixDigit 10) (tl r1) else []);
               r2 = (if hasPoint then dropWhile (isRadixDigit 10) (tl r1) else r1);
               m = real (digitsValue 10 ip) + real (digitsValue 10 fp) / 10 ^ length fp;
               e = exponentPart r2
           in if ip = [] \<and> fp = [] then NaN
              else toDouble ((if isNegative s then - 1 else 1)
                             * (if 0 \<le> e then m * 10 ^ nat e else m / 10 ^ nat (- e))))"

section \<open>PropertyForm (scripts/components/PropertyForm.js)\<close>

text \<open>
  The state of the form and the flag whether a bus was given. The handlers take the value
  of the event's target (the text of the input element) as their argument. What they write
  back to the page (the displayed values and the CSS classes) is not part of the model.
  The configuration is the constant one of the constructor: samples from 1 to 500,
  temperature from 0 to 2.
\<close>

record pf_state =
  pf_samples :: number
  pf_temperature :: number
  pf_isValid :: bool
  pf_errors :: "string list"
  pf_eventBus :: bool

definition config_samples_min :: number where "config_samples_min = Fin 1"
definition config_samples_max :: number where "config_samples_max = Fin 500"
definition config_temperature_min :: number where "config_temperature_min = Fin 0"
definition config_temperature_max :: number where "config_temperature_max = Fin 2"

definition isInteger :: "number \<Rightarrow> bool" where
  "isInteger x = (case x of Fin r \<Rightarrow> of_int \<lfloor>r\<rfloor> = r | _ \<Rightarrow> False)"

definition validate :: "pf_state \<Rightarrow> pf_state" where
  "validate s =
     (let e1 = (if \<not> isInteger (pf_samples s) \<or> lt (pf_samples s) config_samples_min
                then [''Samples must be at least 1''] else []);
          e2 = (if gt (pf_samples s) config_samples_max
                then [''Samples cannot exceed 500''] else []);
          e3 = (if lt (pf_temperature s) config_temperature_min
                   \<or> gt (pf_temperature s) config_temperature_max
                then [''Temperature must be between 0 and 2''] else []);
          errors = e1 @ e2 @ e3
      in s\<lparr>pf_isValid := (length errors = 0), pf_errors := errors\<rparr>)"

definition getFormData :: "pf_state \<Rightarrow> number \<times> number" where
  "getFormData s = (pf_samples s, pf_temperature s)"

text \<open>
  The payload of the \<^verbatim>\<open>form:dataChanged\<close> event that \<open>emitFormChange\<close> emits, if any:
  the pair of \<^verbatim>\<open>samples\<close> and \<^verbatim>\<open>temperature\<close>.
\<close>

definition emitFormChange :: "pf_state \<Rightarrow> (number \<times> number) option" where
  "emitFormChange s = (if pf_eventBus s then Some (getFormData s) else None)"

definition handleSamplesChange :: "string \<Rightarrow> pf_state \<Rightarrow> pf_state \<times> (number \<times> number) option" where
  "handleSamplesChange rawValue s =
     (let numericValue = parseInt rawValue (Some 10);
          sanitizedValue =
            (if isNaN numericValue \<or> lt numericValue config_samples_min then config_samples_min
             else if gt numericValue config_samples_max then config_samples_max
             else numericValue)
      in if \<not> strictEquals (pf_samples s) sanitizedValue
         then (let s' = validate (s\<lparr>pf_samples := sanitizedValue\<rparr>) in (s', emitFormChange s'))
         else (s, None))"

definition handleSamplesBlur :: "string \<Rightarrow> pf_state \<Rightarrow> pf_state \<times> (number \<times> number) option" where
  "handleSamplesBlur targetValue s =
     (if targetValue = [] \<or> lt (parseInt targetValue None) config_samples_min
      then (let s' = validate (s\<lparr>pf_samples := config_samples_min\<rparr>) in (s', emitFormChange s'))
      else (s, None))"


text \<open>
  \<open>handleFormDataSet\<close> receives form data (from \<^verbatim>\<open>form:setInitialValues\<close> or
  \<open>setFormData\<close>); \<^verbatim>\<open>typeof data.samples === 'number'\<close> is the field being present.
\<close>

definition handleFormDataSet :: "'f formData \<Rightarrow> pf_state \<Rightarrow> pf_state" where
  "handleFormDataSet data s =
     (let c1 = (case samples data of None \<Rightarrow> False | Some n \<Rightarrow> \<not> strictEquals n (pf_samples s));
          s1 = (case samples data of
                  None \<Rightarrow> s
                | Some n \<Rightarrow>
                    if \<not> strictEquals n (pf_samples s)
                    then s\<lparr>pf_samples := Math_max config_samples_min (Math_min config_samples_max n)\<rparr>
                    else s);
          c2 = (case temperature data of
                  None \<Rightarrow> False | Some t \<Rightarrow> \<not> strictEquals t (pf_temperature s1));
          s2 = (case temperature data of
                  None \<Rightarrow> s1
                | Some t \<Rightarrow>
                    if \<not> strictEquals t (pf_temperature s1)
                    then s1\<lparr>pf_temperature :=
                              Math_max config_temperature_min (Math_min config_temperature_max t)\<rparr>
                    else s1)
      in if c1 \<or> c2 then validate s2 else s2)"

definition setFormData :: "'f formData \<Rightarrow> pf_state \<Rightarrow> pf_state" where
  "setFormData data s = handleFormDataSet data s"


text \<open>
  The state the constructor sets, and \<open>init\<close>: \<open>setupInitialValues\<close> reads the values
  of the two input elements (\<^verbatim>\<open>parseInt(value) || default\<close>), then \<open>validate\<close> runs.
\<close>

definition initialPropertyForm :: "bool \<Rightarrow> pf_state" where
  "initialPropertyForm bus =
     \<lparr>pf_samples = Fin 0, pf_temperature = Fin 1, pf_isValid = False, pf_errors = [],
      pf_eventBus = bus\<rparr>"




subsection \<open>The temperature control\<close>



subsection \<open>The form over time\<close>




text \<open>What the specification asks of the samples field: the value clamped into [1,500], NaN taken as 1.\<close>

definition sanitizeSamples :: "number \<Rightarrow> number" where
  "sanitizeSamples n =
     (if isNaN n \<or> lt n (Fin 1) then Fin 1 else if gt n (Fin 500) then Fin 500 else n)"

section \<open>ModeManager\<close>

text \<open>
  The repository holds two copies of the component. The one modelled here is the copy with
  the form of the mode Molecular Transformation, whose \<open>validateInput\<close> admits the
  wildcard \<^verbatim>\<open>*\<close>. Of the copy in scripts/components/ModeManager.js the function
  \<open>validateInput\<close> is modelled as well, as \<open>validateInput_ModeManager_js\<close>.

  The page is modelled by what the component reads and writes of it: the value and the
  validation class of each input element and the label of each file upload, by the
  \<^verbatim>\<open>data-input\<close> name of the element. All elements of index.html are taken to be there.
  The instructions and the visibility of the forms are left out.
\<close>

datatype validity = NoClass | ValidClass | InvalidClass

record 'f modeManager =
  mm_currentMode :: string
  mm_formData :: "'f formData"
  mm_inputValue :: "string \<Rightarrow> string"
  mm_inputClass :: "string \<Rightarrow> validity"
  mm_fileLabel :: "string \<Rightarrow> string"
  mm_similarityIndex :: nat
  mm_eventBus :: bool

text \<open>\<^verbatim>\<open>String.prototype.includes\<close> and \<^verbatim>\<open>String.prototype.trim\<close>.\<close>

fun String_includes :: "string \<Rightarrow> string \<Rightarrow> bool" where
  "String_includes [] sub = (sub = [])"
| "String_includes (c # s) sub = (take (length sub) (c # s) = sub \<or> String_includes s sub)"

definition trim :: "string \<Rightarrow> string" where
  "trim s = rev (dropWhile isWhiteSpace (rev (dropWhile isWhiteSpace s)))"

text \<open>
  The character class of the pattern
  \<^verbatim>\<open>/^[A-Za-z0-9\(\)\[\]@=#\-\+\.\\\/:*]+$/\<close>, and that of the copy in
  scripts/components, \<^verbatim>\<open>/^[A-Za-z0-9\(\)\[\]@=#\-\+\.\\\/:]+$/\<close>.
  The character with the code 0x5C is the backslash.
\<close>

definition isAlphanumeric :: "char \<Rightarrow> bool" where
  "isAlphanumeric c =
     (let n = (of_char c :: nat)
      in (65 \<le> n \<and> n \<le> 90) \<or> (97 \<le> n \<and> n \<le> 122) \<or> (48 \<le> n \<and> n \<le> 57))"

definition smilesCharacter :: "char \<Rightarrow> bool" where
  "smilesCharacter c = (isAlphanumeric c \<or> c \<in> set ''()[]@=#-+./:*'' \<or> c = CHR 0x5C)"

definition smilesCharacter_ModeManager_js :: "char \<Rightarrow> bool" where
  "smilesCharacter_ModeManager_js c =
     (isAlphanumeric c \<or> c \<in> set ''()[]@=#-+./:'' \<or> c = CHR 0x5C)"

text \<open>\<^verbatim>\<open>pattern.test(v)\<close>: the whole of \<open>v\<close> is one or more characters of the class.\<close>

definition smilesPattern_test :: "string \<Rightarrow> bool" where
  "smilesPattern_test v = (v \<noteq> [] \<and> list_all smilesCharacter v)"

definition smilesPattern_ModeManager_js_test :: "string \<Rightarrow> bool" where
  "smilesPattern_ModeManager_js_test v = (v \<noteq> [] \<and> list_all smilesCharacter_ModeManager_js v)"

text \<open>
  \<open>validateInput\<close> removes both validation classes and adds one only for a non-empty
  value: the result is the class the input element has afterwards. \<open>inputType\<close> is the
  \<^verbatim>\<open>data-input\<close> attribute of the element, \<open>None\<close> when it has none.
\<close>

definition validateInput :: "string option \<Rightarrow> string \<Rightarrow> validity" where
  "validateInput inputType v =
     (let isValid =
            (case inputType of
               None \<Rightarrow> True
             | Some t \<Rightarrow>
                 if t \<noteq> [] \<and> String_includes t ''smiles''
                 then 0 < length v \<and> smilesPattern_test v
                 else True)
      in if 0 < length v then (if isValid then ValidClass else InvalidClass) else NoClass)"

definition validateInput_ModeManager_js :: "string option \<Rightarrow> string \<Rightarrow> validity" where
  "validateInput_ModeManager_js inputType v =
     (let isValid =
            (case inputType of
               None \<Rightarrow> True
             | Some t \<Rightarrow>
                 if t \<noteq> [] \<and> String_includes t ''smiles''
                 then 0 < length v \<and> smilesPattern_ModeManager_js_test v
                 else True)
      in if 0 < length v then (if isValid then ValidClass else InvalidClass) else NoClass)"

text \<open>
  \<open>handleInputChange\<close> for the element with the given \<^verbatim>\<open>data-input\<close> name and value;
  it yields the payload of the \<^verbatim>\<open>form:dataChanged\<close> event, if a bus is given. A name
  outside the field mapping would be used as the key itself; the record has no such key.
\<close>

definition fieldMapping :: "string \<Rightarrow> string \<Rightarrow> 'f assignment list" where
  "fieldMapping inputType v =
     (if inputType = ''scaffold-smiles'' then [SetScaffold (Some v)]
      else if inputType = ''fragment1-smiles'' then [SetFragment1 (Some v)]
      else if inputType = ''fragment2-smiles'' then [SetFragment2 (Some v)]
      else if inputType = ''starting-molecule-smiles'' then [SetStartingMolecule (Some v)]
      else if inputType = ''similarity'' then [SetSimilarity (Some v)]
      else [])"

definition handleInputChange ::
    "string \<Rightarrow> string \<Rightarrow> 'f modeManager \<Rightarrow> 'f modeManager \<times> 'f assignment list option" where
  "handleInputChange inputType targetValue m =
     (let v = trim targetValue;
          change = fieldMapping inputType v;
          m1 = m\<lparr>mm_inputValue := (mm_inputValue m)(inputType := targetValue),
                 mm_formData := spread (mm_formData m) change\<rparr>;
          m2 = m1\<lparr>mm_inputClass :=
                      (mm_inputClass m1)(inputType := validateInput (Some inputType) v)\<rparr>
      in (m2, if mm_eventBus m then Some change else None))"

text \<open>
  \<open>handleFileChange\<close> for the upload of the given type (\<^verbatim>\<open>scaffold\<close>, \<^verbatim>\<open>fragment\<close>,
  \<^verbatim>\<open>transformation\<close>) and the chosen file, if any, with its name.
\<close>

definition fileAssignment :: "string \<Rightarrow> 'f option \<Rightarrow> 'f assignment list" where
  "fileAssignment type file =
     (if type = ''scaffold'' then [SetScaffoldFile file]
      else if type = ''fragment'' then [SetFragmentFile file]
      else if type = ''transformation'' then [SetTransformationFile file]
      else [])"

definition handleFileChange ::
    "string \<Rightarrow> ('f \<times> string) option \<Rightarrow> 'f modeManager
       \<Rightarrow> 'f modeManager \<times> 'f assignment list option" where
  "handleFileChange type file m =
     (let filename = (case file of None \<Rightarrow> ''No file chosen'' | Some (f, name) \<Rightarrow> name);
          change = fileAssignment type (map_option fst file);
          m1 = m\<lparr>mm_fileLabel := (mm_fileLabel m)(type := filename),
                 mm_formData := spread (mm_formData m) change\<rparr>
      in (m1, if mm_eventBus m then Some change else None))"

definition clearFormData :: "'f modeManager \<Rightarrow> 'f modeManager" where
  "clearFormData m =
     (let textInputs = [''scaffold-smiles'', ''fragment1-smiles'', ''fragment2-smiles'',
                        ''starting-molecule-smiles''];
          fileInputs = [''scaffold-file'', ''fragment-file'', ''transformation-file''];
          labels = [''scaffold'', ''fragment'', ''transformation'']
      in m\<lparr>mm_inputValue := (\<lambda>k. if k \<in> set textInputs \<or> k \<in> set fileInputs then []
                                  else mm_inputValue m k),
            mm_inputClass := (\<lambda>k. if k \<in> set textInputs then NoClass else mm_inputClass m k),
            mm_fileLabel := (\<lambda>k. if k \<in> set labels then ''No file chosen'' else mm_fileLabel m k),
            mm_similarityIndex := 0,
            mm_formData := emptyFormData\<rparr>)"

text \<open>The handler of \<^verbatim>\<open>mode:changed\<close> and \<^verbatim>\<open>app:modeChanged\<close>, for the mode they name.\<close>

definition ModeManager_handleModeChange :: "string \<Rightarrow> 'f modeManager \<Rightarrow> 'f modeManager" where
  "ModeManager_handleModeChange mode m =
     (if mode = mm_currentMode m then m
      else clearFormData (m\<lparr>mm_currentMode := mode\<rparr>))"

section \<open>The application (scripts/main.js)\<close>

text \<open>
  The canonical form data of the application and its handlers of \<^verbatim>\<open>mode:changed\<close> and
  \<^verbatim>\<open>form:dataChanged\<close>. \<open>App_handleModeChange\<close> also yields the argument of the event
  \<^verbatim>\<open>app:modeChanged\<close> it emits: the new mode, the previous mode and the form data. The
  updates of the UIStateManager are left out.
\<close>

record 'f app_state =
  app_currentMode :: string
  app_isGenerating :: bool
  app_formData :: "'f formData"

definition getDefaultFormData :: "'f formData" where
  "getDefaultFormData =
     \<lparr>samples = Some (Fin 0), temperature = Some (Fin 1), scaffold = Some [],
      fragment1 = Some [], fragment2 = Some [], startingMolecule = None, similarity = None,
      scaffoldFile = None, fragmentFile = None, transformationFile = None\<rparr>"

definition initialApp :: "'f app_state" where
  "initialApp =
     \<lparr>app_currentMode = ''Select Mode'', app_isGenerating = False,
      app_formData = getDefaultFormData\<rparr>"

definition App_handleModeChange ::
    "string \<Rightarrow> 'f app_state \<Rightarrow> 'f app_state \<times> (string \<times> string \<times> 'f formData)" where
  "App_handleModeChange newMode a =
     (let previousMode = app_currentMode a;
          preservedData = [SetSamples (samples (app_formData a)),
                           SetTemperature (temperature (app_formData a))];
          a' = a\<lparr>app_currentMode := newMode,
                 app_formData := spread getDefaultFormData preservedData\<rparr>
      in (a', (newMode, previousMode, app_formData a')))"

definition App_handleFormDataChange :: "'f assignment list \<Rightarrow> 'f app_state \<Rightarrow> 'f app_state" where
  "App_handleFormDataChange changes a = a\<lparr>app_formData := spread (app_formData a) changes\<rparr>"

text \<open>The mode-specific fields of form data are at their defaults: empty or absent.\<close>

definition modeFieldsCleared :: "'f formData \<Rightarrow> bool" where
  "modeFieldsCleared fd =
     (orEmpty (scaffold fd) = [] \<and> orEmpty (fragment1 fd) = [] \<and> orEmpty (fragment2 fd) = []
      \<and> orEmpty (startingMolecule fd) = [] \<and> orEmpty (similarity fd) = []
      \<and> scaffoldFile fd = None \<and> fragmentFile fd = None \<and> transformationFile fd = None)"

definition scaffoldController :: "unit controller" where
  "scaffoldController =
     handleFormDataChange [SetScaffold (Some ''c1ccccc1'')]
       (handleModeChange ''Scaffold Decoration'' readyController)"

section \<open>ResultsDisplay (scripts/components/ResultsDisplay.js)\<close>

text \<open>
  The functions that build the HTML of the results panel, and the handlers that assign it
  to \<^verbatim>\<open>innerHTML\<close>. Of the template literals the model keeps the markup and the
  interpolated values, and leaves out the line breaks and the indentation between the tags.
  The time shown is what \<^verbatim>\<open>toLocaleTimeString()\<close> gives for the moment of the last
  generation; the model holds it as a text. Of the two copies of the component the model
  follows the one with the link to the CSV file; the other copy has no such link and
  builds the rest of the markup alike.
\<close>

text \<open>\<^verbatim>\<open>s.replace(/c/g, r)\<close>: every occurrence of the character \<open>c\<close> replaced by \<open>r\<close>.\<close>

definition replaceAll :: "char \<Rightarrow> string \<Rightarrow> string \<Rightarrow> string" where
  "replaceAll c r s = concat (map (\<lambda>x. if x = c then r else [x]) s)"

text \<open>The characters with the codes 0x22 and 0x27 are the double and the single quote.\<close>

definition escapeHtml :: "string \<Rightarrow> string" where
  "escapeHtml unsafe =
     replaceAll (CHR 0x27) ''&#039;''
       (replaceAll (CHR 0x22) ''&quot;''
          (replaceAll (CHR ''>'') ''&gt;''
             (replaceAll (CHR ''<'') ''&lt;''
                (replaceAll (CHR ''&'') ''&amp;'' unsafe))))"

text \<open>The decimal numeral of a natural number, as the template literal prints a count.\<close>

fun showNat :: "nat \<Rightarrow> string" where
  "showNat n =
     (if n < 10 then [''0123456789'' ! n]
      else showNat (n div 10) @ [''0123456789'' ! (n mod 10)])"

definition API_BASE :: string where
  "API_BASE = ''https://molgpt-be.onrender.com''"

record rd_state =
  rd_isLoading :: bool
  rd_results :: "generationResult option"
  rd_error :: "string option"
  lastGeneration :: "string option"

record content =
  innerHTML :: string
  aria_live :: "string option"
  aria_label :: "string option"

record resultsDisplay =
  rd :: rd_state
  contentElement :: content

definition startsWith :: "string \<Rightarrow> string \<Rightarrow> bool" where
  "startsWith s p = (take (length p) s = p)"

definition createGenerationTimestamp :: "rd_state \<Rightarrow> string option \<Rightarrow> string" where
  \<open>createGenerationTimestamp st csvUrl =
     (case lastGeneration st of
        None \<Rightarrow> []
      | Some timestamp \<Rightarrow>
          (let fullCsvUrl =
                 (case csvUrl of
                    None \<Rightarrow> None
                  | Some u \<Rightarrow>
                      if u = [] then None
                      else Some (if startsWith u ''/'' then API_BASE @ u else u));
               downloadButton =
                 (case fullCsvUrl of
                    None \<Rightarrow> []
                  | Some f \<Rightarrow>
                      if f = [] then []
                      else ''<a href="'' @ f @ ''" download class="results__download-button">''
                           @ ''Download CSV'' @ ''</a>'')
           in ''<div class="results__timestamp-container">''
              @ ''<p class="results__timestamp">'' @ ''Generated at '' @ timestamp @ ''</p>''
              @ downloadButton
              @ ''</div>''))\<close>

definition createResultsSummary ::
    "rd_state \<Rightarrow> nat \<Rightarrow> nat \<Rightarrow> nat option \<Rightarrow> string option \<Rightarrow> string" where
  \<open>createResultsSummary st totalCount validCount requestSamples csvUrl =
     (let samples = (case requestSamples of None \<Rightarrow> 0 | Some n \<Rightarrow> n);
          summaryMessage = ''Generated: '' @ showNat totalCount @ '', Valid: '' @ showNat validCount;
          contextMessage =
            (if 0 < samples \<and> totalCount \<noteq> samples
             then '' (Expected '' @ showNat samples @ '' samples)'' else [])
      in ''<div class="results__summary">''
         @ ''<p class="results__status">'' @ ''<strong>Generation Complete!</strong> ''
         @ summaryMessage @ contextMessage @ ''</p>''
         @ createGenerationTimestamp st csvUrl
         @ ''</div>'')\<close>

definition createMoleculeItem :: "molecule \<Rightarrow> nat \<Rightarrow> string" where
  \<open>createMoleculeItem m index =
     (let v = (case valid m of None \<Rightarrow> True | Some b \<Rightarrow> b);
          validityClass =
            (if v then ''results__molecule-item--valid'' else ''results__molecule-item--invalid'');
          validityLabel =
            (if v then [] else ''<span class="results__validity-indicator">(invalid)</span>'')
      in ''<div class="results__molecule-item '' @ validityClass @ ''">''
         @ ''<span class="results__molecule-index">'' @ showNat (index + 1) @ '':</span>''
         @ ''<code class="results__molecule-code">'' @ escapeHtml (smiles m) @ ''</code>''
         @ validityLabel
         @ ''</div>'')\<close>

definition createMoleculesList :: "molecule list \<Rightarrow> string" where
  \<open>createMoleculesList molecules =
     (if length molecules = 0
      then ''<div class="results__empty">''
           @ ''<p>No molecules generated. Please try adjusting your parameters.</p>''
           @ ''</div>''
      else ''<div class="results__molecule-list" id="mol-list">''
           @ concat (map (\<lambda>(m, i). createMoleculeItem m i) (zip molecules [0 ..< length molecules]))
           @ ''</div>'')\<close>

definition orZero :: "nat option \<Rightarrow> nat" where
  "orZero v = (case v of None \<Rightarrow> 0 | Some n \<Rightarrow> n)"

definition renderResults :: "generationResult \<Rightarrow> resultsDisplay \<Rightarrow> resultsDisplay" where
  "renderResults results d =
     (let molecules = (case generated_molecules results of None \<Rightarrow> [] | Some ms \<Rightarrow> ms);
          totalCount = orZero (total_generated results);
          validCount = orZero (valid_molecules results);
          summaryHTML = createResultsSummary (rd d) totalCount validCount
                          (requestParams_samples results) (csv_url results);
          moleculesHTML = createMoleculesList molecules
      in d\<lparr>contentElement :=
              \<lparr>innerHTML = summaryHTML @ moleculesHTML,
               aria_live = Some ''polite'',
               aria_label = Some (''Generation results: Generated: '' @ showNat totalCount
                                  @ '', Valid: '' @ showNat validCount)\<rparr>\<rparr>)"

definition renderProgress :: "string \<Rightarrow> resultsDisplay \<Rightarrow> resultsDisplay" where
  \<open>renderProgress message d =
     d\<lparr>contentElement :=
         \<lparr>innerHTML = ''<div class="results__loading">''
                       @ ''<div class="results__loading-indicator">''
                       @ ''<div class="results__spinner"></div>''
                       @ ''<p class="results__loading-text">'' @ escapeHtml message @ ''</p>''
                       @ ''</div>'' @ ''</div>'',
          aria_live = Some ''polite'',
          aria_label = Some message\<rparr>\<rparr>\<close>

text \<open>The warning sign of the error icon is given by its three UTF-8 bytes and those of its variation selector.\<close>

definition renderError :: "string \<Rightarrow> resultsDisplay \<Rightarrow> resultsDisplay" where
  \<open>renderError errorMessage d =
     d\<lparr>contentElement :=
         \<lparr>innerHTML = ''<div class="results__error">''
                       @ ''<div class="results__error-icon">''
                       @ [CHR 0xE2, CHR 0x9A, CHR 0xA0, CHR 0xEF, CHR 0xB8, CHR 0x8F]
                       @ ''</div>''
                       @ ''<div class="results__error-content">''
                       @ ''<h3 class="results__error-title">Generation Error</h3>''
                       @ ''<p class="results__error-message">'' @ escapeHtml errorMessage @ ''</p>''
                       @ ''<p class="results__error-suggestion">''
                       @ ''Please check your inputs and try again. If the problem persists, ''
                       @ ''ensure the API server is running and accessible.''
                       @ ''</p>'' @ ''</div>'' @ ''</div>'',
          aria_live = Some ''assertive'',
          aria_label = Some (''Error: '' @ errorMessage)\<rparr>\<rparr>\<close>

text \<open>
  The handlers of \<^verbatim>\<open>results:display\<close>, \<^verbatim>\<open>results:showProgress\<close> and
  \<^verbatim>\<open>results:showError\<close>; \<open>now\<close> is the time of the call as a text.
\<close>

definition handleResultsDisplay :: "string \<Rightarrow> generationResult \<Rightarrow> resultsDisplay \<Rightarrow> resultsDisplay" where
  "handleResultsDisplay now results d =
     renderResults results
       (d\<lparr>rd := (rd d)\<lparr>rd_isLoading := False, rd_results := Some results, rd_error := None,
                         lastGeneration := Some now\<rparr>\<rparr>)"

definition handleShowProgress :: "string \<Rightarrow> resultsDisplay \<Rightarrow> resultsDisplay" where
  "handleShowProgress message d =
     renderProgress message (d\<lparr>rd := (rd d)\<lparr>rd_isLoading := True, rd_error := None\<rparr>\<rparr>)"

definition handleShowError :: "string \<Rightarrow> resultsDisplay \<Rightarrow> resultsDisplay" where
  "handleShowError errorMessage d =
     renderError errorMessage
       (d\<lparr>rd := (rd d)\<lparr>rd_isLoading := False, rd_error := Some errorMessage,
                         rd_results := None\<rparr>\<rparr>)"

definition initialResultsDisplay :: resultsDisplay where
  "initialResultsDisplay =
     \<lparr>rd = \<lparr>rd_isLoading = False, rd_results = None, rd_error = None, lastGeneration = None\<rparr>,
      contentElement = \<lparr>innerHTML = [], aria_live = None, aria_label = None\<rparr>\<rparr>"

definition exampleResults :: generationResult where
  \<open>exampleResults =
     \<lparr>generated_molecules = Some [\<lparr>smiles = ''CCO'', valid = Some True\<rparr>],
      total_generated = Some 1, valid_molecules = Some 1, requestParams_samples = None,
      csv_url = Some ''x" onmouseover="alert(1)''\<rparr>\<close>


chapter \<open>Properties\<close>

section \<open>EventBus: delivery\<close>

declare emit_unchecked.simps [simp del]

lemma forEach_error_calls:
  "c \<in> set (snd (snd (forEach env ''error'' args ls n b))) \<Longrightarrow> fst c = ''error''"
proof (induction ls arbitrary: n b)
  case Nil
  then show ?case by simp
next
  case (Cons l ls)
  then show ?case
    by (cases "env (callback l) (ctx l) args b"; cases "fst (env (callback l) (ctx l) args b)")
       (auto simp: split_beta)
qed

lemma emit_error_calls:
  "c \<in> set (snd (snd (emit_unchecked env ''error'' args b))) \<Longrightarrow> fst c = ''error''"
  by (cases "events b ''error''")
     (auto simp: emit_unchecked.simps split_beta dest: forEach_error_calls)

lemma filter_nested_calls:
  "eventName \<noteq> ''error'' \<Longrightarrow>
   filter (\<lambda>c. fst c = eventName) (snd (snd (emit_unchecked env ''error'' args b))) = []"
  by (auto simp: filter_empty_conv dest: emit_error_calls)

lemma forEach_invokes_snapshot:
  "filter (\<lambda>c. fst c = eventName) (snd (snd (forEach env eventName args ls n b)))
     = map (\<lambda>l. (eventName, l, args)) ls"
proof (induction ls arbitrary: n b)
  case Nil
  show ?case by simp
next
  case (Cons l ls)
  obtain r b1 where P: "env (callback l) (ctx l) args b = (r, b1)"
    by (cases "env (callback l) (ctx l) args b") auto
  show ?case
  proof (cases r)
    case None
    with P Cons.IH show ?thesis by (simp add: split_beta)
  next
    case (Some e)
    with P Cons.IH show ?thesis
      by (cases "eventName = ''error''") (simp_all add: split_beta filter_nested_calls)
  qed
qed

lemma emit_unchecked_invokes_snapshot:
  "filter (\<lambda>c. fst c = eventName) (snd (snd (emit_unchecked env eventName args b)))
     = map (\<lambda>l. (eventName, l, args)) (listenersOf b eventName)"
  by (cases "events b eventName")
     (simp_all add: emit_unchecked.simps listenersOf_def split_beta forEach_invokes_snapshot)

lemma emit_error_calls_exact:
  "snd (snd (emit_unchecked env ''error'' args b))
     = map (\<lambda>l. (''error'', l, args)) (listenersOf b ''error'')"
proof -
  have "filter (\<lambda>c. fst c = ''error'') (snd (snd (emit_unchecked env ''error'' args b)))
          = snd (snd (emit_unchecked env ''error'' args b))"
    by (rule filter_True) (auto dest: emit_error_calls)
  then show ?thesis
    using emit_unchecked_invokes_snapshot[of "''error''" env args b] by simp
qed

text \<open>The loop over a list is the loop over a first part followed by the loop over the rest.\<close>

lemma forEach_append:
  "forEach env eventName args (xs @ ys) n b
     = (let first = forEach env eventName args xs n b;
            rest = forEach env eventName args ys (fst first) (fst (snd first))
        in (fst rest, fst (snd rest), snd (snd first) @ snd (snd rest)))"
proof (induction xs arbitrary: n b)
  case Nil
  show ?case by simp
next
  case (Cons l xs)
  obtain r b1 where P: "env (callback l) (ctx l) args b = (r, b1)"
    by (cases "env (callback l) (ctx l) args b") auto
  show ?case
  proof (cases r)
    case None
    with P Cons.IH show ?thesis by (simp add: split_beta Let_def)
  next
    case (Some e)
    with P Cons.IH show ?thesis by (simp add: split_beta Let_def)
  qed
qed

text \<open>The bus and the calls of the loop do not depend on the counter it starts with.\<close>

lemma forEach_counter:
  "snd (forEach env eventName args ls n b) = snd (forEach env eventName args ls 0 b)"
proof (induction ls arbitrary: n b)
  case Nil
  show ?case by simp
next
  case (Cons l ls)
  obtain r b1 where P: "env (callback l) (ctx l) args b = (r, b1)"
    by (cases "env (callback l) (ctx l) args b") auto
  show ?case
  proof (cases r)
    case None
    with P Cons.IH[of "n + 1"] Cons.IH[of "0 + 1"] show ?thesis by (simp add: split_beta)
  next
    case (Some e)
    with P Cons.IH[of n] show ?thesis by (simp add: split_beta)
  qed
qed

text \<open>What the catch block adds to the calls when the callback of \<open>l\<close> has thrown.\<close>

lemma forEach_step_calls:
  "snd (snd (forEach env eventName args (l # ls) n b))
     = (eventName, l, args)
       # (case fst (env (callback l) (ctx l) args b) of
            None \<Rightarrow> []
          | Some e \<Rightarrow>
              if eventName = ''error'' then []
              else map (\<lambda>el. (''error'', el, ErrorInfo eventName e (lid l)))
                     (listenersOf (snd (env (callback l) (ctx l) args b)) ''error''))
       @ snd (snd (forEach env eventName args ls 0
                (fst (snd (forEach env eventName args [l] 0 b)))))"
proof -
  obtain r b1 where P: "env (callback l) (ctx l) args b = (r, b1)"
    by (cases "env (callback l) (ctx l) args b") auto
  have L: "listenersOf (b1\<lparr>stats := (stats b1)\<lparr>errors := errors (stats b1) + 1\<rparr>\<rparr>) ''error''
             = listenersOf b1 ''error''"
    by (simp add: listenersOf_def)
  show ?thesis
  proof (cases r)
    case None
    with P forEach_counter[of env eventName args ls "n + 1"] show ?thesis
      by (simp add: split_beta)
  next
    case (Some e)
    with P L show ?thesis
      using forEach_counter[of env eventName args ls n]
      by (simp add: split_beta emit_error_calls_exact)
  qed
qed


lemma forEach_calls_at:
  assumes "i < length ls"
  shows "snd (snd (forEach env eventName args ls 0 b))
     = snd (snd (forEach env eventName args (take i ls) 0 b))
       @ (eventName, ls ! i, args)
       # (case fst (env (callback (ls ! i)) (ctx (ls ! i)) args
                     (fst (snd (forEach env eventName args (take i ls) 0 b)))) of
            None \<Rightarrow> []
          | Some e \<Rightarrow>
              if eventName = ''error'' then []
              else map (\<lambda>el. (''error'', el, ErrorInfo eventName e (lid (ls ! i))))
                     (listenersOf (snd (env (callback (ls ! i)) (ctx (ls ! i)) args
                                         (fst (snd (forEach env eventName args (take i ls) 0 b)))))
                        ''error''))
       @ snd (snd (forEach env eventName args (drop (Suc i) ls) 0
                (fst (snd (forEach env eventName args (take (Suc i) ls) 0 b)))))"
proof -
  let ?first = "forEach env eventName args (take i ls) 0 b"
  have S: "take (Suc i) ls = take i ls @ [ls ! i]"
    using assms by (simp add: take_Suc_conv_app_nth)
  have D: "ls = take i ls @ (ls ! i # drop (Suc i) ls)"
    using assms by (simp add: id_take_nth_drop[symmetric])
  have B: "fst (snd (forEach env eventName args (take (Suc i) ls) 0 b))
             = fst (snd (forEach env eventName args [ls ! i] 0 (fst (snd ?first))))"
    unfolding S forEach_append Let_def
    using forEach_counter[of env eventName args "[ls ! i]" "fst ?first" "fst (snd ?first)"]
    by simp
  have "snd (snd (forEach env eventName args ls 0 b))
          = snd (snd (forEach env eventName args (take i ls @ (ls ! i # drop (Suc i) ls)) 0 b))"
    using D by simp
  also have "\<dots> = snd (snd ?first)
        @ snd (snd (forEach env eventName args (ls ! i # drop (Suc i) ls) (fst ?first) (fst (snd ?first))))"
    unfolding forEach_append Let_def by simp
  finally show ?thesis
    unfolding forEach_step_calls B by simp
qed

text \<open>
  Claim C1. An emission with a valid (non-empty) event name always returns to the emitter
  (\<open>Inr\<close>: no listener's exception propagates), whatever the callbacks do (return, throw,
  or change the registry). The calls it makes to listeners of that event are exactly the
  listeners registered when the emission started, each once, in registration order. For
  every one of them, the \<open>i\<close>-th say: the calls of the emission begin with those of
  the loop over the first \<open>i\<close> listeners; then comes the call of the listener, made in
  the bus as that loop left it; when this call throws and the event is not
  \<^verbatim>\<open>'error'\<close>, it is followed at once by one call of each listener registered for
  \<^verbatim>\<open>'error'\<close> at that moment, with the event name, the exception and the listener
  id; and the emission goes on from there.
\<close>

theorem emit_delivers_to_every_listener:
  fixes b :: "('c, 'x) bus" and env :: "('c, 'x, 'a, 'e) behaviour"
  assumes "eventName \<noteq> []"
  shows "\<exists>r b' calls.
           emit env eventName args b = Inr (r, b', calls) \<and>
           filter (\<lambda>c. fst c = eventName) calls
             = map (\<lambda>l. (eventName, l, args)) (listenersOf b eventName) \<and>
           (\<forall>i < length (listenersOf b eventName).
              let l = listenersOf b eventName ! i;
                  before = forEach env eventName args (take i (listenersOf b eventName)) 0 b;
                  outcome = env (callback l) (ctx l) args (fst (snd before));
                  reemitted =
                    (case fst outcome of
                       None \<Rightarrow> []
                     | Some e \<Rightarrow>
                         if eventName = ''error'' then []
                         else map (\<lambda>el. (''error'', el, ErrorInfo eventName e (lid l)))
                                (listenersOf (snd outcome) ''error''))
              in \<exists>rest. calls = snd (snd before) @ (eventName, l, args) # reemitted @ rest)"
proof -
  obtain r b' calls where E: "emit_unchecked env eventName args b = (r, b', calls)"
    by (cases "emit_unchecked env eventName args b") auto
  have C: "calls = snd (snd (forEach env eventName args (listenersOf b eventName) 0 b))"
    using E by (cases "events b eventName")
               (auto simp: emit_unchecked.simps listenersOf_def split_beta)
  have 1: "emit env eventName args b = Inr (r, b', calls)"
    using assms E by (simp add: emit_def)
  have 2: "filter (\<lambda>c. fst c = eventName) calls
             = map (\<lambda>l. (eventName, l, args)) (listenersOf b eventName)"
    using emit_unchecked_invokes_snapshot[of eventName env args b] E by simp
  show ?thesis
    using 1 2 forEach_calls_at[of _ "listenersOf b eventName" env eventName args b]
    unfolding C[symmetric] Let_def by blast
qed

theorem emit_delivers_to_every_listener_witness:
  "''data'' \<noteq> [] \<and> 1 < length (listenersOf example_bus ''data'') \<and>
   (\<exists>r b' calls rest.
      emit example_env ''data'' (Args 7) example_bus = Inr (r, b', calls) \<and>
      filter (\<lambda>c. fst c = ''data'') calls
        = [(''data'', example_listener 0 True ''a'', Args 7),
           (''data'', example_listener 1 False ''b'', Args 7),
           (''data'', example_listener 2 False ''c'', Args 7)] \<and>
      calls
        = [(''data'', example_listener 0 True ''a'', Args 7),
           (''data'', example_listener 1 False ''b'', Args 7),
           (''error'', example_listener 3 False ''d'', ErrorInfo ''data'' ''boom'' ''b'')] @ rest)"
proof -
  have n: "''data'' \<noteq> []" by simp
  have L: "listenersOf example_bus ''data''
             = [example_listener 0 True ''a'', example_listener 1 False ''b'',
                example_listener 2 False ''c'']"
    by (simp add: listenersOf_def example_bus_def)
  have I: "1 < length (listenersOf example_bus ''data'')" by (simp add: L)
  have B: "forEach example_env ''data'' (Args 7) [example_listener 0 True ''a''] 0 example_bus
             = (1, off ''data'' (Some (ById ''a'')) example_bus,
                [(''data'', example_listener 0 True ''a'', Args 7)])"
    by (simp add: example_env_def example_listener_def)
  have E: "listenersOf (off ''data'' (Some (ById ''a'')) example_bus) ''error''
             = [example_listener 3 False ''d'']"
    by (simp add: listenersOf_def example_bus_def off_def Let_def example_listener_def)
  from emit_delivers_to_every_listener[OF n, of example_env "Args 7" example_bus]
  obtain r b' calls where
    1: "emit example_env ''data'' (Args 7) example_bus = Inr (r, b', calls)" and
    2: "filter (\<lambda>c. fst c = ''data'') calls
          = map (\<lambda>l. (''data'', l, Args 7)) (listenersOf example_bus ''data'')" and
    3: "\<forall>i < length (listenersOf example_bus ''data'').
              let l = listenersOf example_bus ''data'' ! i;
                  before = forEach example_env ''data'' (Args 7)
                             (take i (listenersOf example_bus ''data'')) 0 example_bus;
                  outcome = example_env (callback l) (ctx l) (Args 7) (fst (snd before));
                  reemitted =
                    (case fst outcome of
                       None \<Rightarrow> []
                     | Some e \<Rightarrow>
                         if ''data'' = ''error'' then []
                         else map (\<lambda>el. (''error'', el, ErrorInfo ''data'' e (lid l)))
                                (listenersOf (snd outcome) ''error''))
              in \<exists>rest. calls = snd (snd before) @ (''data'', l, Args 7) # reemitted @ rest"
    by blast
  from 3 I have "let l = listenersOf example_bus ''data'' ! 1;
                  before = forEach example_env ''data'' (Args 7)
                             (take 1 (listenersOf example_bus ''data'')) 0 example_bus;
                  outcome = example_env (callback l) (ctx l) (Args 7) (fst (snd before));
                  reemitted =
                    (case fst outcome of
                       None \<Rightarrow> []
                     | Some e \<Rightarrow>
                         if ''data'' = ''error'' then []
                         else map (\<lambda>el. (''error'', el, ErrorInfo ''data'' e (lid l)))
                                (listenersOf (snd outcome) ''error''))
              in \<exists>rest. calls = snd (snd before) @ (''data'', l, Args 7) # reemitted @ rest"
    by blast
  then obtain rest where
    4: "calls = [(''data'', example_listener 0 True ''a'', Args 7),
           (''data'', example_listener 1 False ''b'', Args 7),
           (''error'', example_listener 3 False ''d'', ErrorInfo ''data'' ''boom'' ''b'')] @ rest"
    unfolding L Let_def
    by (auto simp: B E example_env_def example_listener_def)
  from 2 have 5: "filter (\<lambda>c. fst c = ''data'') calls
        = [(''data'', example_listener 0 True ''a'', Args 7),
           (''data'', example_listener 1 False ''b'', Args 7),
           (''data'', example_listener 2 False ''c'', Args 7)]"
    by (simp add: L)
  from n I 1 5 4 show ?thesis by blast
qed

section \<open>EventBus: one-time listeners\<close>

lemma listenersOf_cong: "events b' k = events b k \<Longrightarrow> listenersOf b' k = listenersOf b k"
  by (simp add: listenersOf_def)



lemma registry_untouchedD:
  "registry_untouched env \<Longrightarrow> listenersOf (snd (env c x p b)) k = listenersOf b k"
  by (simp add: registry_untouched_def listenersOf_def)




















section \<open>GenerationController\<close>

lemma samples_messages:
  "(if falsyNumber v \<or> ltOpt v (Fin 1) then [sampleSizeMessage] else [])
     @ (if gtOpt v (Fin 500) then [''Sample size cannot exceed 500''] else [])
   = (if (case v of None \<Rightarrow> False | Some n \<Rightarrow> inRange 1 500 n) then []
      else if gtOpt v (Fin 500) then [''Sample size cannot exceed 500'']
      else [sampleSizeMessage])"
proof (cases v)
  case None
  then show ?thesis by (simp add: falsyNumber_def ltOpt_def gtOpt_def)
next
  case (Some n)
  then show ?thesis
    by (cases n) (auto simp: falsyNumber_def ltOpt_def gtOpt_def gt_def inRange_def)
qed

lemma temperature_check:
  "(ltOpt v (Fin 0) \<or> gtOpt v (Fin 2))
     = (case v of None \<Rightarrow> False | Some t \<Rightarrow> \<not> isNaN t \<and> \<not> inRange 0 2 t)"
proof (cases v)
  case None
  then show ?thesis by (simp add: ltOpt_def gtOpt_def)
next
  case (Some t)
  then show ?thesis
    by (cases t) (auto simp: ltOpt_def gtOpt_def gt_def inRange_def)
qed

lemma falsyString_orEmpty: "falsyString v = (orEmpty v = [])"
  by (cases v) (simp_all add: falsyString_def orEmpty_def)

lemma scaffold_message:
  "(currentMode st = ''Scaffold Decoration''
      \<and> falsyString (scaffold (formData st)) \<and> falsyFile (scaffoldFile (formData st)))
   = (\<not> scaffoldRule st)"
  by (auto simp: scaffoldRule_def falsyString_orEmpty falsyFile_def)

lemma fragment_message:
  "(currentMode st = ''Fragment Linking''
      \<and> falsyFile (fragmentFile (formData st))
      \<and> (falsyString (fragment1 (formData st)) \<or> falsyString (fragment2 (formData st))))
   = (\<not> fragmentRule st)"
  by (auto simp: fragmentRule_def falsyString_orEmpty falsyFile_def)

text \<open>
  The errors of \<open>validateForm\<close>, rule by rule. The rules of the samples, of the mode and
  of the required fields are those of the specification. The temperature is reported only
  when it is a number below 0 or above 2.
\<close>

lemma validateForm_errors:
  "errors' (validateForm st)
     = (if samplesInRange (formData st) then []
        else if gtOpt (samples (formData st)) (Fin 500) then [''Sample size cannot exceed 500'']
        else [sampleSizeMessage])
       @ (if (case temperature (formData st) of
                None \<Rightarrow> False | Some t \<Rightarrow> \<not> isNaN t \<and> \<not> inRange 0 2 t)
          then [''Temperature must be between 0 and 2''] else [])
       @ (if currentMode st \<noteq> ''Select Mode'' then [] else [''Please choose a generator mode''])
       @ (if scaffoldRule st then []
          else [''Please provide a scaffold SMILES or upload a scaffold file''])
       @ (if fragmentRule st then []
          else [''Please provide two fragment SMILES or upload a fragment file''])"
proof -
  let ?fd = "formData st"
  have "errors' (validateForm st)
      = ((if falsyNumber (samples ?fd) \<or> ltOpt (samples ?fd) (Fin 1) then [sampleSizeMessage] else [])
          @ (if gtOpt (samples ?fd) (Fin 500) then [''Sample size cannot exceed 500''] else []))
        @ (if ltOpt (temperature ?fd) (Fin 0) \<or> gtOpt (temperature ?fd) (Fin 2)
           then [''Temperature must be between 0 and 2''] else [])
        @ (if currentMode st = ''Select Mode'' then [''Please choose a generator mode''] else [])
        @ (if currentMode st = ''Scaffold Decoration''
                \<and> falsyString (scaffold ?fd) \<and> falsyFile (scaffoldFile ?fd)
           then [''Please provide a scaffold SMILES or upload a scaffold file''] else [])
        @ (if currentMode st = ''Fragment Linking''
                \<and> falsyFile (fragmentFile ?fd)
                \<and> (falsyString (fragment1 ?fd) \<or> falsyString (fragment2 ?fd))
           then [''Please provide two fragment SMILES or upload a fragment file''] else [])"
    by (simp add: validateForm_def Let_def split del: if_split cong: if_cong)
  also have "\<dots> = (if samplesInRange (formData st) then []
        else if gtOpt (samples (formData st)) (Fin 500) then [''Sample size cannot exceed 500'']
        else [sampleSizeMessage])
       @ (if (case temperature (formData st) of
                None \<Rightarrow> False | Some t \<Rightarrow> \<not> isNaN t \<and> \<not> inRange 0 2 t)
          then [''Temperature must be between 0 and 2''] else [])
       @ (if currentMode st \<noteq> ''Select Mode'' then [] else [''Please choose a generator mode''])
       @ (if scaffoldRule st then []
          else [''Please provide a scaffold SMILES or upload a scaffold file''])
       @ (if fragmentRule st then []
          else [''Please provide two fragment SMILES or upload a fragment file''])"
    unfolding samples_messages temperature_check scaffold_message fragment_message
    by (simp add: samplesInRange_def)
  finally show ?thesis .
qed

lemma validateForm_isValid: "isValid (validateForm st) = (errors' (validateForm st) = [])"
  by (simp add: validateForm_def Let_def)

text \<open>
  In a state whose form data holds a temperature that is a number, \<open>validateForm\<close> does
  what the specification says: it reports the form valid exactly when the policy holds, and
  its errors are the messages of the violated rules.
\<close>

lemma validateForm_with_temperature:
  assumes "temperature (formData st) = Some t" and "\<not> isNaN t"
  shows "isValid (validateForm st) = claimedValid st"
    and "errors' (validateForm st) = violatedMessages st"
proof -
  show E: "errors' (validateForm st) = violatedMessages st"
    unfolding validateForm_errors using assms
    by (simp add: violatedMessages_def temperatureInRange_def)
  have "(violatedMessages st = []) = claimedValid st"
    by (simp add: violatedMessages_def claimedValid_def)
  with E show "isValid (validateForm st) = claimedValid st"
    by (simp add: validateForm_isValid)
qed

text \<open>
  Without a temperature the rule of the temperature is violated, and \<open>validateForm\<close>
  returns the messages of the violated rules but for that of the temperature.
\<close>

lemma validateForm_without_temperature:
  assumes "temperature (formData st) = None"
  shows "errors' (validateForm st)
           = filter (\<lambda>m. m \<noteq> ''Temperature must be between 0 and 2'') (violatedMessages st)"
    and "''Temperature must be between 0 and 2'' \<in> set (violatedMessages st)"
  unfolding validateForm_errors using assms
  by (simp_all add: violatedMessages_def temperatureInRange_def sampleSizeMessage_def)

text \<open>
  Claim C7 holds in every state whose form data holds a temperature that is a number. The
  controller starts with empty form data, and the form data has no temperature until the
  property form reports a change. In these states the temperature is not in [0,2], and
  \<open>validateForm\<close> does not report it: the check of the samples is guarded by
  \<^verbatim>\<open>!samples ||\<close>, the check of the temperature is not, and both of its comparisons
  are false for \<^verbatim>\<open>undefined\<close>. For the controller as constructed, and after the mode
  De Novo Generation was chosen, the errors, which the button shows as its title, lack the
  message of the temperature.
\<close>

theorem validateForm_omits_temperature_message:
  "temperature (formData (state (initialController exampleButton True :: unit controller))) = None \<and>
   \<not> temperatureInRange (formData (state (initialController exampleButton True :: unit controller))) \<and>
   errors' (validateForm (state (initialController exampleButton True :: unit controller)))
     = [sampleSizeMessage, ''Please choose a generator mode''] \<and>
   title (element (initialController exampleButton True :: unit controller))
     = join ''; '' [sampleSizeMessage, ''Please choose a generator mode''] \<and>
   temperature (formData (state (handleModeChange ''De Novo Generation''
                    (initialController exampleButton True :: unit controller)))) = None \<and>
   errors' (validateForm (state (handleModeChange ''De Novo Generation''
                    (initialController exampleButton True :: unit controller))))
     = [sampleSizeMessage] \<and>
   title (element (handleModeChange ''De Novo Generation''
                    (initialController exampleButton True :: unit controller)))
     = sampleSizeMessage"
proof -
  let ?c = "initialController exampleButton True :: unit controller"
  have S: "state ?c = \<lparr>isGenerating = False, currentMode = ''Select Mode'',
                        formData = emptyFormData, abortController = None\<rparr>"
    by (simp add: initialController_def updateButtonState_def Let_def)
  have E: "errors' (validateForm \<lparr>isGenerating = False, currentMode = m,
                        formData = (emptyFormData :: unit formData), abortController = None\<rparr>)
             = [sampleSizeMessage] @ (if m = ''Select Mode'' then [''Please choose a generator mode''] else [])"
    if "m = ''Select Mode'' \<or> m = ''De Novo Generation''" for m
    using that
    by (auto simp: validateForm_def Let_def emptyFormData_def falsyNumber_def ltOpt_def gtOpt_def
          falsyString_def falsyFile_def)
  have V: "\<not> isValid (validateForm \<lparr>isGenerating = False, currentMode = m,
                        formData = (emptyFormData :: unit formData), abortController = None\<rparr>)"
    if "m = ''Select Mode'' \<or> m = ''De Novo Generation''" for m
    using E[OF that] by (simp add: validateForm_isValid)
  have T0: "title (element ?c) = join ''; '' [sampleSizeMessage, ''Please choose a generator mode'']"
    using E[of "''Select Mode''"] V[of "''Select Mode''"]
    by (simp add: initialController_def updateButtonState_def Let_def)
  have S1: "state (handleModeChange ''De Novo Generation'' ?c)
              = \<lparr>isGenerating = False, currentMode = ''De Novo Generation'',
                 formData = emptyFormData, abortController = None\<rparr>"
    by (simp add: handleModeChange_def S updateButtonState_def Let_def)
  have T1: "title (element (handleModeChange ''De Novo Generation'' ?c)) = join ''; '' [sampleSizeMessage]"
    using E[of "''De Novo Generation''"] V[of "''De Novo Generation''"]
    by (simp add: handleModeChange_def S updateButtonState_def Let_def)
  have J: "join ''; '' [sampleSizeMessage] = sampleSizeMessage"
    by simp
  show ?thesis
    using T0 T1 E[of "''Select Mode''"] E[of "''De Novo Generation''"]
    by (simp add: S S1 J temperatureInRange_def emptyFormData_def)
qed

lemma updateButtonState_state [simp]: "state (updateButtonState c) = state c"
  by (simp add: updateButtonState_def Let_def)

lemma updateButtonState_browser [simp]:
  "inFlight (updateButtonState c) = inFlight c"
  "aborted (updateButtonState c) = aborted c"
  "eventBus (updateButtonState c) = eventBus c"
  "controllersCreated (updateButtonState c) = controllersCreated c"
  by (simp_all add: updateButtonState_def Let_def)

lemma updateButtonState_disabled:
  "disabled (element (updateButtonState c))
     = (\<not> isValid (validateForm (state c)) \<and> \<not> isGenerating (state c))"
  by (auto simp: updateButtonState_def Let_def)

text \<open>
  Claim C2. In a state that is not generating and whose form is invalid, a click (and the
  Enter or space key) leaves the controller as it is, starts no run of \<open>startGeneration\<close>
  (so \<open>makeApiRequest\<close> and \<^verbatim>\<open>fetch\<close> are never reached), has no effect but the event
  \<^verbatim>\<open>generation:error\<close> with the joined messages, in particular no \<^verbatim>\<open>fetch\<close> and no
  \<^verbatim>\<open>generation:complete\<close>; and \<open>updateButtonState\<close> renders the button disabled.
\<close>

theorem invalid_form_issues_no_request:
  fixes c :: "'f controller"
  assumes "\<not> isGenerating (state c)" and "\<not> isValid (validateForm (state c))"
  shows "handleClick c
           = (c, handleGenerationError (join ''; '' (errors' (validateForm (state c)))) c, None) \<and>
         handleKeyPress ''Enter'' c = handleClick c \<and>
         handleKeyPress '' '' c = handleClick c \<and>
         (\<forall>p s. FetchCalled p s
                  \<notin> set (fst (snd (handleClick c)))) \<and>
         (\<forall>a. Emit ''generation:complete'' a
                  \<notin> set (fst (snd (handleClick c)))) \<and>
         disabled (element (updateButtonState c))"
  using assms
  by (simp add: handleClick_def startGeneration_def handleKeyPress_def handleGenerationError_def
        updateButtonState_disabled Let_def)

lemma cancelGeneration_effects:
  "snd (cancelGeneration c)
     = (case abortController (state c) of None \<Rightarrow> [] | Some a \<Rightarrow> [AbortCalled a])
       @ (if eventBus c then [Emit ''generation:cancelled'' NoArg] else [])"
  by (simp add: cancelGeneration_def Let_def)

lemma cancelGeneration_state:
  "state (fst (cancelGeneration c)) = (state c)\<lparr>isGenerating := False\<rparr>"
  by (simp add: cancelGeneration_def Let_def split: option.splits)

lemma cancelGeneration_aborts:
  "abortController (state c) = Some a \<Longrightarrow>
     a \<in> aborted (fst (cancelGeneration c)) \<and> a \<notin> set (inFlight (fst (cancelGeneration c)))"
  by (simp add: cancelGeneration_def Let_def)

lemma cancelGeneration_inFlight:
  "set (inFlight (fst (cancelGeneration c))) \<subseteq> set (inFlight c)"
  by (auto simp: cancelGeneration_def Let_def split: option.splits)

lemma handleClick_started:
  "snd (snd (handleClick c)) = Some run \<Longrightarrow>
     \<not> isGenerating (state c) \<and> isValid (validateForm (state c))"
  by (auto simp: handleClick_def startGeneration_def Let_def split_beta split: if_splits)

text \<open>
  Claim C3, as amended. In a state with \<open>isGenerating\<close> set, a click is
  \<open>cancelGeneration\<close>: it calls \<^verbatim>\<open>abort()\<close> on the stored AbortController (when
  one is stored), which ends the requests sent with its signal, clears \<open>isGenerating\<close>,
  emits \<^verbatim>\<open>generation:cancelled\<close> (when a bus is given), sends nothing and starts no run.
  A click starts a run only in a state with \<open>isGenerating\<close> clear and a valid form.
\<close>

theorem click_while_generating_cancels:
  fixes c :: "'f controller"
  shows "(isGenerating (state c) \<longrightarrow>
            (handleClick c)
              = (fst (cancelGeneration c),
                 (case abortController (state c) of None \<Rightarrow> [] | Some a \<Rightarrow> [AbortCalled a])
                   @ (if eventBus c then [Emit ''generation:cancelled'' NoArg] else []),
                 None) \<and>
            \<not> isGenerating (state (fst (cancelGeneration c))) \<and>
            (\<forall>a. abortController (state c) = Some a \<longrightarrow>
                   a \<in> aborted (fst (cancelGeneration c)) \<and>
                   a \<notin> set (inFlight (fst (cancelGeneration c)))) \<and>
            set (inFlight (fst (cancelGeneration c)))
              \<subseteq> set (inFlight c)) \<and>
         (\<forall>run. snd (snd (handleClick c)) = Some run \<longrightarrow>
            \<not> isGenerating (state c) \<and> isValid (validateForm (state c)))"
proof (intro conjI impI allI)
  assume G: "isGenerating (state c)"
  show "(handleClick c)
              = (fst (cancelGeneration c),
                 (case abortController (state c) of None \<Rightarrow> [] | Some a \<Rightarrow> [AbortCalled a])
                   @ (if eventBus c then [Emit ''generation:cancelled'' NoArg] else []),
                 None)"
    using G cancelGeneration_effects[of c]
    by (simp add: handleClick_def split_beta)
next
  show "\<not> isGenerating (state (fst (cancelGeneration c)))"
    by (simp add: cancelGeneration_state)
next
  fix a assume "abortController (state c) = Some a"
  then show "a \<in> aborted (fst (cancelGeneration c))"
    and "a \<notin> set (inFlight (fst (cancelGeneration c)))"
    using cancelGeneration_aborts by blast+
next
  show "set (inFlight (fst (cancelGeneration c)))
              \<subseteq> set (inFlight c)"
    by (rule cancelGeneration_inFlight)
next
  fix run
  assume "snd (snd (handleClick c)) = Some run"
  then show "\<not> isGenerating (state c)" and "isValid (validateForm (state c))"
    using handleClick_started by blast+
qed

lemma readyController_state:
  "state readyController
     = \<lparr>isGenerating = False, currentMode = ''De Novo Generation'',
        formData = emptyFormData\<lparr>samples := Some (Fin 5), temperature := Some (Fin 1)\<rparr>,
        abortController = None\<rparr>"
  by (simp add: readyController_def handleFormDataChange_def handleModeChange_def
        initialController_def spread_def)

lemma readyController_browser:
  "inFlight readyController = []" "aborted readyController = {}"
  "controllersCreated readyController = 0" "eventBus readyController"
  by (simp_all add: readyController_def handleFormDataChange_def handleModeChange_def
        initialController_def)

lemma readyState_valid:
  "isValid (validateForm \<lparr>isGenerating = g, currentMode = ''De Novo Generation'',
        formData = emptyFormData\<lparr>samples := Some (Fin 5), temperature := Some (Fin 1)\<rparr>,
        abortController = a\<rparr>)"
  by (simp add: validateForm_def Let_def emptyFormData_def falsyNumber_def ltOpt_def gtOpt_def gt_def)

text \<open>
  Claim C3 as stated ends in "at most one generation request is in flight at any time".
  That fails after a timeout: the timer settles the race, the \<^verbatim>\<open>finally\<close> block clears
  \<open>isGenerating\<close> and the stored controller, and nothing aborts the request, which is
  still in flight when the next click sends a second one.
\<close>

theorem timed_out_request_stays_in_flight_counterexample:
  "\<exists>c1 e1 run1 c2 e2 c3 e3 c4 e4 run2 c5 e5.
     handleClick readyController = (c1, e1, Some run1) \<and>
     makeApiRequest (\<lambda>f. None) run1 c1 = (c2, e2, Some 0) \<and>
     inFlight c2 = [0] \<and>
     raceSettled 0 TimedOut c2 = (c3, e3) \<and>
     \<not> isGenerating (state c3) \<and> inFlight c3 = [0] \<and> 0 \<notin> aborted c3 \<and>
     handleClick c3 = (c4, e4, Some run2) \<and>
     makeApiRequest (\<lambda>f. None) run2 c4 = (c5, e5, Some 1) \<and>
     inFlight c5 = [0, 1] \<and> \<not> length (inFlight c5) \<le> 1"
proof -
  let ?st = "\<lambda>g a. \<lparr>isGenerating = g, currentMode = ''De Novo Generation'',
        formData = emptyFormData\<lparr>samples := Some (Fin 5), temperature := Some (Fin 1)\<rparr>,
        abortController = a\<rparr> :: unit gc_state"
  obtain c1 e1 r1 where H1: "handleClick readyController = (c1, e1, r1)"
    by (cases "handleClick readyController") auto
  have S1: "state c1 = ?st True (Some 0)" and R1: "r1 \<noteq> None"
    and B1: "inFlight c1 = []" "aborted c1 = {}" "controllersCreated c1 = 1"
    using H1
    by (auto simp: handleClick_def startGeneration_def Let_def readyController_state
          readyController_browser readyState_valid)
  from R1 obtain run1 where Q1: "r1 = Some run1" by auto
  obtain c2 e2 g2 where H2: "makeApiRequest (\<lambda>f. None) run1 c1 = (c2, e2, g2)"
    by (cases "makeApiRequest (\<lambda>f. None) run1 c1 :: unit controller \<times> effect list \<times> nat option") auto
  have S2: "state c2 = ?st True (Some 0)" and G2: "g2 = Some 0"
    and B2: "inFlight c2 = [0]" "aborted c2 = {}" "controllersCreated c2 = 1"
    using H2 S1 B1 by (auto simp: makeApiRequest_def Let_def)
  obtain c3 e3 where H3: "raceSettled 0 TimedOut c2 = (c3, e3)"
    by (cases "raceSettled 0 TimedOut c2") auto
  have S3: "state c3 = ?st False None"
    and B3: "inFlight c3 = [0]" "aborted c3 = {}" "controllersCreated c3 = 1"
    using H3 S2 B2 by (auto simp: raceSettled_def generationFailed_def finishGeneration_def Let_def)
  obtain c4 e4 r4 where H4: "handleClick c3 = (c4, e4, r4)"
    by (cases "handleClick c3") auto
  have S4: "state c4 = ?st True (Some 1)" and R4: "r4 \<noteq> None"
    and B4: "inFlight c4 = [0]" "aborted c4 = {}" "controllersCreated c4 = 2"
    using H4 S3 B3
    by (auto simp: handleClick_def startGeneration_def Let_def readyState_valid)
  from R4 obtain run2 where Q4: "r4 = Some run2" by auto
  obtain c5 e5 g5 where H5: "makeApiRequest (\<lambda>f. None) run2 c4 = (c5, e5, g5)"
    by (cases "makeApiRequest (\<lambda>f. None) run2 c4 :: unit controller \<times> effect list \<times> nat option") auto
  have G5: "g5 = Some 1" and B5: "inFlight c5 = [0, 1]"
    using H5 S4 B4 by (auto simp: makeApiRequest_def Let_def)
  have F1: "handleClick readyController = (c1, e1, Some run1)" using H1 Q1 by simp
  have F2: "makeApiRequest (\<lambda>f. None) run1 c1 = (c2, e2, Some 0)" using H2 G2 by simp
  have F3: "\<not> isGenerating (state c3)" "0 \<notin> aborted c3" using S3 B3 by simp_all
  have F4: "handleClick c3 = (c4, e4, Some run2)" using H4 Q4 by simp
  have F5: "makeApiRequest (\<lambda>f. None) run2 c4 = (c5, e5, Some 1)" using H5 G5 by simp
  have F6: "\<not> length (inFlight c5) \<le> 1" using B5 by simp
  from F1 F2 B2(1) H3 F3 B3(1) F4 F5 B5 F6 show ?thesis by blast
qed

lemma handleClick_ready:
  "\<exists>c1 e1 run1. handleClick readyController = (c1, e1, Some run1)"
  by (simp add: handleClick_def startGeneration_def Let_def readyController_state readyState_valid)

theorem invalid_form_issues_no_request_witness:
  "\<not> isGenerating (state (initialController exampleButton True :: unit controller)) \<and>
   \<not> isValid (validateForm (state (initialController exampleButton True :: unit controller))) \<and>
   handleClick (initialController exampleButton True :: unit controller)
     = (initialController exampleButton True,
        [Emit ''generation:error''
           (ErrorArg (join ''; '' [sampleSizeMessage, ''Please choose a generator mode'']))],
        None) \<and>
   disabled (element (updateButtonState (initialController exampleButton True :: unit controller)))"
proof -
  let ?c = "initialController exampleButton True :: unit controller"
  have S: "state ?c = \<lparr>isGenerating = False, currentMode = ''Select Mode'',
                        formData = emptyFormData, abortController = None\<rparr>"
    by (simp add: initialController_def)
  have G: "\<not> isGenerating (state ?c)" by (simp add: S)
  have E: "errors' (validateForm (state ?c)) = [sampleSizeMessage, ''Please choose a generator mode'']"
    by (simp add: S validateForm_def Let_def emptyFormData_def falsyNumber_def ltOpt_def gtOpt_def
          falsyString_def falsyFile_def)
  have V: "\<not> isValid (validateForm (state ?c))"
    using E by (simp add: validateForm_isValid)
  have B: "eventBus ?c" by (simp add: initialController_def)
  from invalid_form_issues_no_request[OF G V] G V E B show ?thesis
    by (simp add: handleGenerationError_def)
qed

theorem click_while_generating_cancels_witness:
  "isGenerating (state generatingController) \<and>
   (\<exists>c'. handleClick generatingController
            = (c', [AbortCalled 0, Emit ''generation:cancelled'' NoArg], None) \<and>
          \<not> isGenerating (state c') \<and> 0 \<in> aborted c' \<and> inFlight c' = []) \<and>
   (\<exists>c1 e1 run1. handleClick readyController = (c1, e1, Some run1)) \<and>
   \<not> isGenerating (state readyController) \<and> isValid (validateForm (state readyController))"
proof -
  have G: "isGenerating (state generatingController)"
    by (simp add: generatingController_def)
  have A: "abortController (state generatingController) = Some 0"
    and B: "eventBus generatingController"
    and I: "inFlight generatingController = [0]"
    by (simp_all add: generatingController_def)
  let ?c' = "fst (cancelGeneration generatingController)"
  from click_while_generating_cancels[of generatingController] G A B
  have 1: "handleClick generatingController
             = (?c', [AbortCalled 0, Emit ''generation:cancelled'' NoArg], None)"
    and 2: "\<not> isGenerating (state ?c')" and 3: "0 \<in> aborted ?c'"
    and 4: "0 \<notin> set (inFlight ?c')" and 5: "set (inFlight ?c') \<subseteq> set (inFlight generatingController)"
    by simp_all
  from 4 5 I have 6: "inFlight ?c' = []"
    by (cases "inFlight ?c'") auto
  obtain c1 e1 run1 where R: "handleClick readyController = (c1, e1, Some run1)"
    using handleClick_ready by blast
  from click_while_generating_cancels[of readyController] R
  have 7: "\<not> isGenerating (state readyController)"
    and 8: "isValid (validateForm (state readyController))"
    by simp_all
  from G 1 2 3 6 R 7 8 show ?thesis by blast
qed

section \<open>Rounding to a double\<close>

lemma roundHalfEven_of_int [simp]: "roundHalfEven (of_int n) = n"
  by (simp add: roundHalfEven_def)



lemma floor_log2_eq:
  assumes "2 powi E \<le> a" and "a < 2 powi (E + 1)"
  shows "\<lfloor>log 2 a\<rfloor> = E"
proof -
  have "0 < (2::real) powi E" by simp
  with assms(1) have P: "0 < a" by linarith
  have A: "(2::real) powr real_of_int k = 2 powi k" for k
    by (simp add: powr_real_of_int')
  have "(\<lfloor>log 2 a\<rfloor> = E) = (2 powr real_of_int E \<le> a \<and> a < 2 powr real_of_int (E + 1))"
    by (rule floor_log_eq_powr_iff) (use P in simp_all)
  then show ?thesis
    unfolding A using assms by simp
qed

text \<open>A number that is a double is its own rounding.\<close>

lemma toDouble_exact:
  assumes "2 powi E \<le> \<bar>r\<bar>" and "\<bar>r\<bar> < 2 powi (E + 1)" and "- 1022 \<le> E" and "E < 1024"
      and "\<bar>r\<bar> / 2 powi (E - 52) = of_int n"
  shows "toDouble r = Fin r"
proof -
  have "0 < (2::real) powi E" by simp
  with assms(1) have "0 < \<bar>r\<bar>" by linarith
  then have N: "r \<noteq> 0" by auto
  have F: "\<lfloor>log 2 \<bar>r\<bar>\<rfloor> = E" using assms(1,2) by (rule floor_log2_eq)
  have M: "max E (- 1022) = E" using assms(3) by simp
  have V: "of_int (roundHalfEven (\<bar>r\<bar> / 2 powi (E - 52))) * 2 powi (E - 52) = \<bar>r\<bar>"
    unfolding assms(5) roundHalfEven_of_int
    using assms(5)[symmetric] by simp
  have "(2::real) powi (E + 1) \<le> 2 powi 1024"
    using assms(4) by (intro power_int_increasing) auto
  then have "\<not> 2 ^ 1024 \<le> \<bar>r\<bar>" using assms(2) by simp
  then show ?thesis
    unfolding toDouble_def Let_def F M V using N by (simp add: abs_if)
qed

lemma toDouble_0 [simp]: "toDouble 0 = Fin 0"
  by (simp add: toDouble_def)

lemma toDouble_of_int:
  assumes "\<bar>k\<bar> < 2 ^ 53"
  shows "toDouble (of_int k) = Fin (of_int k)"
proof (cases "k = 0")
  case True
  then show ?thesis by simp
next
  case False
  define a where "a = \<bar>real_of_int k\<bar>"
  have A1: "1 \<le> a" using False by (simp add: a_def)
  have A2: "a < 2 ^ 53" using assms unfolding a_def
    by (metis of_int_abs of_int_less_numeral_power_cancel_iff)
  define E where "E = \<lfloor>log 2 a\<rfloor>"
  have P: "0 < a" using A1 by simp
  have Q: "(2::real) powr real_of_int k = 2 powi k" for k
    by (simp add: powr_real_of_int')
  have "(\<lfloor>log 2 a\<rfloor> = E) = (2 powr real_of_int E \<le> a \<and> a < 2 powr real_of_int (E + 1))"
    by (rule floor_log_eq_powr_iff) (use P in simp_all)
  then have B: "2 powi E \<le> a \<and> a < 2 powi (E + 1)"
    unfolding Q by (simp add: E_def)
  have E0: "0 \<le> E" using A1 by (simp add: E_def)
  have E1: "E \<le> 52"
  proof (rule ccontr)
    assume "\<not> E \<le> 52"
    then have "53 \<le> E" by simp
    then have "(2::real) powi 53 \<le> 2 powi E" by (intro power_int_increasing) auto
    with B A2 show False by simp
  qed
  have "a / 2 powi (E - 52) = a * 2 ^ nat (52 - E)"
    using E1 by (simp add: power_int_def field_simps)
  also have "\<dots> = of_int (\<bar>k\<bar> * 2 ^ nat (52 - E))"
    by (simp add: a_def)
  finally have I: "\<bar>real_of_int k\<bar> / 2 powi (E - 52) = of_int (\<bar>k\<bar> * 2 ^ nat (52 - E))"
    by (simp add: a_def)
  show ?thesis
    by (rule toDouble_exact[where E=E, OF _ _ _ _ I]) (use B E0 E1 in \<open>simp_all add: a_def\<close>)
qed


lemma toDouble_numeral [simp]:
  "(numeral n :: int) < 2 ^ 53 \<Longrightarrow> toDouble (numeral n) = Fin (numeral n)"
  "(numeral n :: int) < 2 ^ 53 \<Longrightarrow> toDouble (- numeral n) = Fin (- numeral n)"
  using toDouble_of_int[of "numeral n"] toDouble_of_int[of "- numeral n"] by simp_all

lemma toDouble_1 [simp]: "toDouble 1 = Fin 1"
  using toDouble_of_int[of 1] by simp

section \<open>PropertyForm\<close>

lemma validate_values [simp]:
  "pf_samples (validate s) = pf_samples s" "pf_temperature (validate s) = pf_temperature s"
  by (simp_all add: validate_def Let_def)

lemma strictEquals_eq: "strictEquals a b \<Longrightarrow> a = b"
  by (cases a; cases b) simp_all

lemma handleSamplesChange_stores:
  "pf_samples (fst (handleSamplesChange raw s)) = sanitizeSamples (parseInt raw (Some 10))"
  by (auto simp: handleSamplesChange_def sanitizeSamples_def Let_def config_samples_min_def
        config_samples_max_def dest: strictEquals_eq)

lemma sanitizeSamples_inRange: "inRange 1 500 (sanitizeSamples n)"
  by (cases n) (auto simp: sanitizeSamples_def inRange_def gt_def)

lemma sanitizeSamples_int:
  "sanitizeSamples (Fin (of_int k)) = Fin (of_int (max 1 (min 500 k)))"
  by (auto simp: sanitizeSamples_def gt_def max_def min_def)

lemmas parse_defs = parseInt_def parseFloat_def isWhiteSpace_def dropSign_def isRadixDigit_def
  digitValue_def digitsValue_def isNegative_def exponentPart_def Let_def

lemma parseInt_examples:
  "parseInt ''0'' None = Fin 0"
  "parseInt ''0'' (Some 10) = Fin 0"
  "parseInt ''-7'' (Some 10) = Fin (- 7)"
  "parseInt ''501'' (Some 10) = Fin 501"
  "parseInt ''42'' (Some 10) = Fin 42"
  "parseInt ''abc'' (Some 10) = NaN"
  "parseInt ''-3'' None = Fin (- 3)"
  by (simp_all add: parse_defs)


text \<open>
  Claim C5. After \<open>handleSamplesChange\<close> the stored \<^verbatim>\<open>samples\<close> is in [1,500] whatever
  the text of the field: when the text parses to an integer \<open>k\<close>, it is \<open>k\<close> clamped into
  [1,500] (1 below the range, 500 above it), and when it does not parse to a number, it is 1.
  On blur, an empty field or one whose value is below 1 sets the stored \<^verbatim>\<open>samples\<close> to
  1; in particular the field value \<^verbatim>\<open>0\<close> does.
\<close>

theorem samples_are_clamped:
  "inRange 1 500 (pf_samples (fst (handleSamplesChange raw s))) \<and>
   (\<forall>k. parseInt raw (Some 10) = Fin (of_int k) \<longrightarrow>
        pf_samples (fst (handleSamplesChange raw s)) = Fin (of_int (max 1 (min 500 k)))) \<and>
   (isNaN (parseInt raw (Some 10)) \<longrightarrow> pf_samples (fst (handleSamplesChange raw s)) = Fin 1) \<and>
   (target = [] \<or> lt (parseInt target None) (Fin 1) \<longrightarrow>
        pf_samples (fst (handleSamplesBlur target s)) = Fin 1) \<and>
   pf_samples (fst (handleSamplesBlur ''0'' s)) = Fin 1"
proof (intro conjI allI impI)
  show "inRange 1 500 (pf_samples (fst (handleSamplesChange raw s)))"
    by (simp add: handleSamplesChange_stores sanitizeSamples_inRange)
next
  fix k assume "parseInt raw (Some 10) = Fin (of_int k)"
  then show "pf_samples (fst (handleSamplesChange raw s)) = Fin (of_int (max 1 (min 500 k)))"
    by (simp add: handleSamplesChange_stores sanitizeSamples_int)
next
  assume "isNaN (parseInt raw (Some 10))"
  then show "pf_samples (fst (handleSamplesChange raw s)) = Fin 1"
    by (simp add: handleSamplesChange_stores sanitizeSamples_def)
next
  assume "target = [] \<or> lt (parseInt target None) (Fin 1)"
  then show "pf_samples (fst (handleSamplesBlur target s)) = Fin 1"
    by (auto simp: handleSamplesBlur_def Let_def config_samples_min_def)
next
  show "pf_samples (fst (handleSamplesBlur ''0'' s)) = Fin 1"
    by (simp add: handleSamplesBlur_def Let_def config_samples_min_def parseInt_examples)
qed

theorem samples_are_clamped_witness:
  "parseInt ''0'' (Some 10) = Fin (of_int 0) \<and>
   pf_samples (fst (handleSamplesChange ''0'' (initialPropertyForm True))) = Fin 1 \<and>
   parseInt ''-7'' (Some 10) = Fin (of_int (- 7)) \<and>
   pf_samples (fst (handleSamplesChange ''-7'' (initialPropertyForm True))) = Fin 1 \<and>
   parseInt ''501'' (Some 10) = Fin (of_int 501) \<and>
   pf_samples (fst (handleSamplesChange ''501'' (initialPropertyForm True))) = Fin 500 \<and>
   parseInt ''42'' (Some 10) = Fin (of_int 42) \<and>
   pf_samples (fst (handleSamplesChange ''42'' (initialPropertyForm True))) = Fin 42 \<and>
   isNaN (parseInt ''abc'' (Some 10)) \<and>
   pf_samples (fst (handleSamplesChange ''abc'' (initialPropertyForm True))) = Fin 1 \<and>
   pf_samples (fst (handleSamplesBlur [] (initialPropertyForm True))) = Fin 1 \<and>
   lt (parseInt ''-3'' None) (Fin 1) \<and>
   pf_samples (fst (handleSamplesBlur ''-3'' (initialPropertyForm True))) = Fin 1"
proof -
  let ?s = "initialPropertyForm True"
  have P0: "parseInt ''0'' (Some 10) = Fin (of_int 0)" by (simp add: parseInt_examples)
  have P1: "parseInt ''-7'' (Some 10) = Fin (of_int (- 7))" by (simp add: parseInt_examples)
  have P2: "parseInt ''501'' (Some 10) = Fin (of_int 501)" by (simp add: parseInt_examples)
  have P3: "parseInt ''42'' (Some 10) = Fin (of_int 42)" by (simp add: parseInt_examples)
  have P4: "isNaN (parseInt ''abc'' (Some 10))" by (simp add: parseInt_examples)
  have P5: "lt (parseInt ''-3'' None) (Fin 1)" by (simp add: parseInt_examples)
  have B0: "([]::string) = [] \<or> lt (parseInt [] None) (Fin 1)" by simp
  have B1: "''-3'' = [] \<or> lt (parseInt ''-3'' None) (Fin 1)" using P5 by simp
  note T = samples_are_clamped
  from T[of "''0''" ?s "[]"] P0 B0
  have A0: "pf_samples (fst (handleSamplesChange ''0'' ?s)) = Fin (of_int (max 1 (min 500 0)))"
    and A5: "pf_samples (fst (handleSamplesBlur [] ?s)) = Fin 1"
    by blast+
  from T[of "''-7''" ?s "''-3''"] P1 B1
  have A1: "pf_samples (fst (handleSamplesChange ''-7'' ?s)) = Fin (of_int (max 1 (min 500 (- 7))))"
    and A6: "pf_samples (fst (handleSamplesBlur ''-3'' ?s)) = Fin 1"
    by blast+
  from T[of "''501''" ?s "[]"] P2
  have A2: "pf_samples (fst (handleSamplesChange ''501'' ?s)) = Fin (of_int (max 1 (min 500 501)))"
    by blast
  from T[of "''42''" ?s "[]"] P3
  have A3: "pf_samples (fst (handleSamplesChange ''42'' ?s)) = Fin (of_int (max 1 (min 500 42)))"
    by blast
  from T[of "''abc''" ?s "[]"] P4
  have A4: "pf_samples (fst (handleSamplesChange ''abc'' ?s)) = Fin 1"
    by blast
  from P0 P1 P2 P3 P4 P5 A0 A1 A2 A3 A4 A5 A6 show ?thesis by simp
qed

subsection \<open>The temperature\<close>


lemma handleSamplesChange_temperature [simp]:
  "pf_temperature (fst (handleSamplesChange raw s)) = pf_temperature s"
  by (simp add: handleSamplesChange_def Let_def)

lemma handleSamplesBlur_temperature [simp]:
  "pf_temperature (fst (handleSamplesBlur raw s)) = pf_temperature s"
  by (simp add: handleSamplesBlur_def Let_def)

















section \<open>ModeManager and mode changes\<close>

subsection \<open>validateInput\<close>

lemma String_includes_smiles:
  "String_includes ''scaffold-smiles'' ''smiles''" "String_includes ''fragment1-smiles'' ''smiles''"
  "String_includes ''fragment2-smiles'' ''smiles''"
  "String_includes ''starting-molecule-smiles'' ''smiles''"
  by simp_all

text \<open>
  The copy with the wildcard classifies a non-empty value of a SMILES field as valid exactly
  when each of its characters is a letter, a digit, one of \<^verbatim>\<open>( ) [ ] @ = # - + . \ / :\<close>
  or \<^verbatim>\<open>*\<close>, and gives an empty value no class.
\<close>

lemma smilesCharacter_iff:
  "smilesCharacter c =
     (isAlphanumeric c \<or> c \<in> set ''()[]@=#-+./:'' \<or> c = CHR 0x5C \<or> c = CHR ''*'')"
proof -
  have "''()[]@=#-+./:*'' = ''()[]@=#-+./:'' @ [CHR ''*'']" by simp
  then have "set ''()[]@=#-+./:*'' = set ''()[]@=#-+./:'' \<union> set [CHR ''*'']"
    by (simp only: set_append)
  then have "(c \<in> set ''()[]@=#-+./:*'') = (c \<in> set ''()[]@=#-+./:'' \<or> c = CHR ''*'')"
    by (simp only: Un_iff list.set insert_iff empty_iff simp_thms)
  then show ?thesis
    unfolding smilesCharacter_def by blast
qed

lemma validateInput_empty: "validateInput inputType [] = NoClass"
  by (simp add: validateInput_def)

lemma validateInput_smiles:
  assumes "t \<noteq> []" and "String_includes t ''smiles''" and "v \<noteq> []"
  shows "(validateInput (Some t) v = ValidClass) =
           (\<forall>c \<in> set v. isAlphanumeric c \<or> c \<in> set ''()[]@=#-+./:'' \<or> c = CHR 0x5C \<or> c = CHR ''*'')"
    and "(validateInput (Some t) v = InvalidClass) = (validateInput (Some t) v \<noteq> ValidClass)"
proof -
  have "(validateInput (Some t) v = ValidClass) = list_all smilesCharacter v"
    using assms by (simp add: validateInput_def smilesPattern_test_def)
  then show "(validateInput (Some t) v = ValidClass) =
           (\<forall>c \<in> set v. isAlphanumeric c \<or> c \<in> set ''()[]@=#-+./:'' \<or> c = CHR 0x5C \<or> c = CHR ''*'')"
    by (simp only: list_all_iff Ball_def smilesCharacter_iff)
  show "(validateInput (Some t) v = InvalidClass) = (validateInput (Some t) v \<noteq> ValidClass)"
    using assms by (simp add: validateInput_def)
qed

lemma validateInput_ModeManager_js_smiles:
  assumes "t \<noteq> []" and "String_includes t ''smiles''" and "v \<noteq> []"
  shows "(validateInput_ModeManager_js (Some t) v = ValidClass) =
           (\<forall>c \<in> set v. isAlphanumeric c \<or> c \<in> set ''()[]@=#-+./:'' \<or> c = CHR 0x5C)"
proof -
  have "(validateInput_ModeManager_js (Some t) v = ValidClass)
          = list_all smilesCharacter_ModeManager_js v"
    using assms
    by (simp add: validateInput_ModeManager_js_def smilesPattern_ModeManager_js_test_def)
  then show ?thesis
    by (simp only: list_all_iff Ball_def smilesCharacter_ModeManager_js_def)
qed

text \<open>
  Claim C8 describes the copy with the wildcard. The copy in
  scripts/components/ModeManager.js leaves the wildcard out of its pattern: the scaffold
  \<^verbatim>\<open>[*]c1ccccc1\<close>, valid by the claim and in the other copy, is classified as invalid.
\<close>

theorem validateInput_ModeManager_js_rejects_wildcard:
  "validateInput_ModeManager_js (Some ''scaffold-smiles'') ''[*]c1ccccc1'' = InvalidClass \<and>
   validateInput (Some ''scaffold-smiles'') ''[*]c1ccccc1'' = ValidClass \<and>
   validateInput_ModeManager_js (Some ''scaffold-smiles'') ''*'' = InvalidClass \<and>
   validateInput (Some ''scaffold-smiles'') ''*'' = ValidClass"
  by (simp add: validateInput_ModeManager_js_def validateInput_def smilesPattern_test_def
        smilesPattern_ModeManager_js_test_def smilesCharacter_def smilesCharacter_ModeManager_js_def
        isAlphanumeric_def)

subsection \<open>Mode changes\<close>

lemma App_handleModeChange_clears:
  "modeFieldsCleared (app_formData (fst (App_handleModeChange newMode a)))"
  "samples (app_formData (fst (App_handleModeChange newMode a))) = samples (app_formData a)"
  "temperature (app_formData (fst (App_handleModeChange newMode a))) = temperature (app_formData a)"
  by (simp_all add: App_handleModeChange_def Let_def spread_def getDefaultFormData_def
        modeFieldsCleared_def orEmpty_def)

lemma ModeManager_handleModeChange_clears:
  "mode \<noteq> mm_currentMode m \<Longrightarrow>
     mm_formData (ModeManager_handleModeChange mode m) = emptyFormData"
  "mode \<noteq> mm_currentMode m \<Longrightarrow>
     modeFieldsCleared (mm_formData (ModeManager_handleModeChange mode m))"
  "mode \<noteq> mm_currentMode m \<Longrightarrow>
     mm_inputValue (ModeManager_handleModeChange mode m) ''scaffold-smiles'' = []"
  by (simp_all add: ModeManager_handleModeChange_def clearFormData_def Let_def emptyFormData_def
        modeFieldsCleared_def orEmpty_def)

lemma handleModeChange_keeps_formData:
  "formData (state (handleModeChange newMode c)) = formData (state c)"
  by (simp add: handleModeChange_def)

text \<open>
  Claim C6 holds for the application and for the ModeManager, and fails for the
  GenerationController: its \<open>handleModeChange\<close> stores the mode and leaves the form data
  as it is. After the scaffold \<^verbatim>\<open>c1ccccc1\<close> was entered in the mode Scaffold Decoration,
  a change to Fragment Linking keeps it, and back in Scaffold Decoration, where the
  ModeManager shows an empty field, the form is valid by the kept scaffold and the request
  payload carries it.
\<close>

theorem GenerationController_keeps_mode_fields:
  "scaffold (formData (state scaffoldController)) = Some ''c1ccccc1'' \<and>
   scaffold (formData (state (handleModeChange ''Fragment Linking'' scaffoldController)))
     = Some ''c1ccccc1'' \<and>
   \<not> modeFieldsCleared (formData (state (handleModeChange ''Fragment Linking'' scaffoldController))) \<and>
   isValid (validateForm (state (handleModeChange ''Scaffold Decoration''
                                   (handleModeChange ''Fragment Linking'' scaffoldController)))) \<and>
   rp_scaffold (buildRequestPayload (state (handleModeChange ''Scaffold Decoration''
                                   (handleModeChange ''Fragment Linking'' scaffoldController))))
     = Some ''c1ccccc1''"
proof -
  have S: "state scaffoldController
     = \<lparr>isGenerating = False, currentMode = ''Scaffold Decoration'',
        formData = emptyFormData\<lparr>samples := Some (Fin 5), temperature := Some (Fin 1),
                                   scaffold := Some ''c1ccccc1''\<rparr>,
        abortController = None\<rparr>"
    by (simp add: scaffoldController_def handleFormDataChange_def handleModeChange_def
          readyController_state spread_def emptyFormData_def)
  show ?thesis
    by (simp add: handleModeChange_def S modeFieldsCleared_def orEmpty_def emptyFormData_def
          validateForm_def buildRequestPayload_def Let_def falsyNumber_def falsyString_def
          falsyFile_def ltOpt_def gtOpt_def gt_def)
qed

section \<open>ResultsDisplay\<close>

text \<open>
  What \<open>escapeHtml\<close> returns holds none of the characters \<^verbatim>\<open><\<close>, \<^verbatim>\<open>>\<close> and the two
  quotes, so an escaped text can end neither the element nor the attribute it stands in.
\<close>

lemma replaceAll_set:
  "set (replaceAll c r s) \<subseteq> (set s - {c}) \<union> set r"
  by (induction s) (auto simp: replaceAll_def)

lemma replaceAll_removes: "c \<notin> set r \<Longrightarrow> c \<notin> set (replaceAll c r s)"
  using replaceAll_set[of c r s] by auto

lemma replaceAll_keeps_absent:
  "x \<notin> set s \<Longrightarrow> x \<notin> set r \<Longrightarrow> x \<notin> set (replaceAll c r s)"
  using replaceAll_set[of c r s] by auto

lemma escapeHtml_safe:
  "CHR ''<'' \<notin> set (escapeHtml s)" "CHR ''>'' \<notin> set (escapeHtml s)"
  "CHR 0x22 \<notin> set (escapeHtml s)" "CHR 0x27 \<notin> set (escapeHtml s)"
proof -
  let ?a = "replaceAll (CHR ''&'') ''&amp;'' s"
  let ?b = "replaceAll (CHR ''<'') ''&lt;'' ?a"
  let ?c = "replaceAll (CHR ''>'') ''&gt;'' ?b"
  let ?d = "replaceAll (CHR 0x22) ''&quot;'' ?c"
  have b: "CHR ''<'' \<notin> set ?b" by (rule replaceAll_removes) simp
  have c: "CHR ''>'' \<notin> set ?c" by (rule replaceAll_removes) simp
  have d: "CHR 0x22 \<notin> set ?d" by (rule replaceAll_removes) simp
  have bc: "CHR ''<'' \<notin> set ?c" using b by (rule replaceAll_keeps_absent) simp
  have bd: "CHR ''<'' \<notin> set ?d" using bc by (rule replaceAll_keeps_absent) simp
  have cd: "CHR ''>'' \<notin> set ?d" using c by (rule replaceAll_keeps_absent) simp
  show "CHR ''<'' \<notin> set (escapeHtml s)"
    unfolding escapeHtml_def using bd by (rule replaceAll_keeps_absent) simp
  show "CHR ''>'' \<notin> set (escapeHtml s)"
    unfolding escapeHtml_def using cd by (rule replaceAll_keeps_absent) simp
  show "CHR 0x22 \<notin> set (escapeHtml s)"
    unfolding escapeHtml_def using d by (rule replaceAll_keeps_absent) simp
  show "CHR 0x27 \<notin> set (escapeHtml s)"
    unfolding escapeHtml_def by (rule replaceAll_removes) simp
qed

text \<open>
  Claim C9 holds for the SMILES strings, the progress messages and the error messages, each
  interpolated as \<open>escapeHtml\<close> of the text, and fails for the CSV link:
  \<open>createGenerationTimestamp\<close> puts the URL into the \<^verbatim>\<open>href\<close> attribute as it is. A
  \<^verbatim>\<open>csv_url\<close> with a double quote ends the attribute and adds one of its own, where the
  escaped URL would not.
\<close>

theorem csv_url_is_not_escaped:
  \<open>innerHTML (contentElement (handleResultsDisplay ''12:00:00'' exampleResults initialResultsDisplay))
     = ''<div class="results__summary"><p class="results__status">''
       @ ''<strong>Generation Complete!</strong> Generated: 1, Valid: 1</p>''
       @ ''<div class="results__timestamp-container">''
       @ ''<p class="results__timestamp">Generated at 12:00:00</p>''
       @ ''<a href="x" onmouseover="alert(1)" download class="results__download-button">''
       @ ''Download CSV</a></div></div>''
       @ ''<div class="results__molecule-list" id="mol-list">''
       @ ''<div class="results__molecule-item results__molecule-item--valid">''
       @ ''<span class="results__molecule-index">1:</span>''
       @ ''<code class="results__molecule-code">CCO</code></div></div>'' \<and>
   escapeHtml ''x" onmouseover="alert(1)'' = ''x&quot; onmouseover=&quot;alert(1)''\<close>
  by (simp add: handleResultsDisplay_def renderResults_def createResultsSummary_def
        createGenerationTimestamp_def createMoleculesList_def createMoleculeItem_def
        exampleResults_def initialResultsDisplay_def escapeHtml_def replaceAll_def orZero_def
        startsWith_def Let_def upt_rec)

end
